(* ===== verification/QR_Prelude.thy ===== *)
theory QR_Prelude
  imports Main
begin

text \<open>
  Shared vocabulary of the development: how JavaScript values that the screen
  reads are represented (strings, truthiness, \<open>null\<close>), the list operation
  used for the queue of pending asynchronous continuations, and the generic
  lemmas about it that the component theories use.
\<close>

named_theorems handler_defs "unfolding equations of the screen's event handlers"
named_theorems continuation_defs "unfolding equations of the continuations after an await"

subsection \<open>JavaScript strings and truthiness\<close>

text \<open>
  A JavaScript string is a sequence of UTF-16 code units. Every literal of the
  program lies in Latin-1, so a code unit is written as an Isabelle \<open>char\<close>
  (8 bits, \<open>CHR 0xF3\<close> for \<open>\<acute>o\<close>). User text that contains code units
  above 255 is outside the model; none of them is a hexadecimal digit, so the
  validator's verdict on such text does not depend on it.
\<close>

type_synonym js_string = string

text \<open>\<open>x && ...\<close> and \<open>x ? ... : ...\<close> test truthiness: the empty string is falsy.\<close>

definition js_truthy_str :: "js_string \<Rightarrow> bool" where
  "js_truthy_str s \<longleftrightarrow> s \<noteq> []"

text \<open>A string-or-\<open>null\<close> value (\<open>None\<close> is \<open>null\<close>/\<open>undefined\<close>).\<close>

fun js_truthy_opt :: "js_string option \<Rightarrow> bool" where
  "js_truthy_opt None = False"
| "js_truthy_opt (Some s) = js_truthy_str s"

lemma js_truthy_opt_iff [simp]:
  "js_truthy_opt v \<longleftrightarrow> (\<exists>s. v = Some s \<and> s \<noteq> [])"
  by (cases v) (auto simp: js_truthy_str_def)

lemma js_truthy_str_iff [simp]: "js_truthy_str s \<longleftrightarrow> s \<noteq> []"
  by (simp add: js_truthy_str_def)

subsection \<open>Removing the continuation that has run\<close>

text \<open>
  The continuations of the \<open>async\<close> handlers that wait on a promise form a
  list; when one finishes it is taken out at its index.
\<close>

definition remove_nth :: "nat \<Rightarrow> 'a list \<Rightarrow> 'a list" where
  "remove_nth i xs = take i xs @ drop (Suc i) xs"

lemma length_remove_nth [simp]:
  "i < length xs \<Longrightarrow> length (remove_nth i xs) = length xs - 1"
  by (simp add: remove_nth_def)

lemma set_remove_nth_subset: "set (remove_nth i xs) \<subseteq> set xs"
  by (auto simp: remove_nth_def dest: in_set_takeD in_set_dropD)

lemma remove_nth_Cons_0 [simp]: "remove_nth 0 (x # xs) = xs"
  by (simp add: remove_nth_def)

lemma remove_nth_Cons_Suc [simp]: "remove_nth (Suc i) (x # xs) = x # remove_nth i xs"
  by (simp add: remove_nth_def)

text \<open>
  Counting the elements with a property (the export continuations, the
  logo-picker continuations) after one is removed or replaced.
\<close>

lemma count_remove_nth:
  "i < length xs \<Longrightarrow>
   length (filter P (remove_nth i xs)) + (if P (xs ! i) then 1 else 0) = length (filter P xs)"
proof (induction xs arbitrary: i)
  case Nil
  then show ?case by simp
next
  case (Cons x xs)
  then show ?case by (cases i) auto
qed

lemma count_list_update:
  "i < length xs \<Longrightarrow>
   length (filter P (xs[i := y])) + (if P (xs ! i) then 1 else 0) =
   length (filter P xs) + (if P y then 1 else 0)"
proof (induction xs arbitrary: i)
  case Nil
  then show ?case by simp
next
  case (Cons x xs)
  then show ?case by (cases i) auto
qed

lemma sum_remove_nth:
  "i < length xs \<Longrightarrow>
   sum_list (map f (remove_nth i xs)) + f (xs ! i) = sum_list (map f xs)"
  for f :: "'a \<Rightarrow> nat"
proof (induction xs arbitrary: i)
  case Nil
  then show ?case by simp
next
  case (Cons x xs)
  then show ?case by (cases i) auto
qed

lemma sum_list_update:
  "i < length xs \<Longrightarrow>
   sum_list (map f (xs[i := y])) + f (xs ! i) = sum_list (map f xs) + f y"
  for f :: "'a \<Rightarrow> nat"
proof (induction xs arbitrary: i)
  case Nil
  then show ?case by simp
next
  case (Cons x xs)
  then show ?case by (cases i) auto
qed

text \<open>Filtering a list after removing or replacing one element.\<close>

lemma filter_remove_nth_skip:
  "i < length xs \<Longrightarrow> \<not> P (xs ! i) \<Longrightarrow> filter P (remove_nth i xs) = filter P xs"
proof (induction xs arbitrary: i)
  case (Cons x xs)
  then show ?case by (cases i) auto
qed simp

lemma filter_update_skip:
  "i < length xs \<Longrightarrow> \<not> P (xs ! i) \<Longrightarrow> \<not> P u \<Longrightarrow> filter P (xs[i := u]) = filter P xs"
proof (induction xs arbitrary: i)
  case (Cons x xs)
  then show ?case by (cases i) auto
qed simp

lemma filter_remove_nth_single:
  "i < length xs \<Longrightarrow> filter P xs = [xs ! i] \<Longrightarrow> P (xs ! i) \<Longrightarrow> filter P (remove_nth i xs) = []"
proof (induction xs arbitrary: i)
  case (Cons x xs)
  show ?case
  proof (cases i)
    case 0
    with Cons.prems show ?thesis by (auto split: if_splits)
  next
    case (Suc j)
    have "\<not> P x"
    proof
      assume "P x"
      with Cons.prems Suc have "filter P xs = []" and "P (xs ! j)" and "j < length xs" by auto
      then show False by (simp add: filter_empty_conv nth_mem)
    qed
    with Cons.prems Suc show ?thesis by (simp add: Cons.IH)
  qed
qed simp

lemma filter_update_single:
  "i < length xs \<Longrightarrow> filter P xs = [xs ! i] \<Longrightarrow> P (xs ! i) \<Longrightarrow> P u \<Longrightarrow>
   filter P (xs[i := u]) = [u]"
proof (induction xs arbitrary: i)
  case (Cons x xs)
  show ?case
  proof (cases i)
    case 0
    with Cons.prems show ?thesis by (auto split: if_splits)
  next
    case (Suc j)
    have "\<not> P x"
    proof
      assume "P x"
      with Cons.prems Suc have "filter P xs = []" and "P (xs ! j)" and "j < length xs" by auto
      then show False by (simp add: filter_empty_conv nth_mem)
    qed
    with Cons.prems Suc show ?thesis by (simp add: Cons.IH)
  qed
qed simp
lemma filter_Cons_head: "filter P xs = x # ys \<Longrightarrow> P x"
  by (metis filter_eq_ConsD)

end
