(* ===== verification/Hex_Validator.thy ===== *)
theory Hex_Validator
  imports QR_Prelude
begin

text \<open>
  The hexadecimal colour validator of \<open>AdvancedQRGenerator.js\<close> (lines 57--59):
  \<open>const hexRegex = /^#([0-9A-Fa-f]{6})$/; const validateHex = (text) =>
  hexRegex.test(text);\<close>. The regular expression literal is modelled as a
  term of a small regular-expression syntax, and \<open>RegExp.prototype.test\<close> by
  the backtracking matcher of the ECMAScript specification (matchers in
  continuation-passing style), restricted to the constructs the literal uses.
  The main result characterises \<open>validateHex\<close> without regular expressions:
  exactly \<open>#\<close> followed by six hexadecimal digits.
\<close>

subsection \<open>Regular expressions and the ECMAScript matcher\<close>

text \<open>
  The constructs of the literal: the assertions \<open>^\<close> and \<open>$\<close> (no \<open>m\<close>
  flag, so they hold only at the ends of the input), a literal character, a
  character class given by ranges, a capturing group, a quantifier \<open>{n}\<close>
  and concatenation.
\<close>

datatype regex =
    RBegin
  | REnd
  | RChar char
  | RClass "(char \<times> char) list"
  | RGroup regex
  | RRepeat regex nat
  | RSeq regex regex

text \<open>A class \<open>[a-bc-d...]\<close> matches a code unit inside one of its ranges.\<close>

definition in_class :: "(char \<times> char) list \<Rightarrow> char \<Rightarrow> bool" where
  "in_class rs c =
     list_ex (\<lambda>(lo, hi). (of_char lo :: nat) \<le> of_char c \<and> (of_char c :: nat) \<le> of_char hi) rs"

text \<open>
  The weight that decreases in every recursive call of the matcher: a
  quantifier \<open>{n}\<close> counts \<open>n + 1\<close> times its body.
\<close>

primrec rx_weight :: "regex \<Rightarrow> nat" where
  "rx_weight RBegin = 1"
| "rx_weight REnd = 1"
| "rx_weight (RChar c) = 1"
| "rx_weight (RClass rs) = 1"
| "rx_weight (RGroup r) = Suc (rx_weight r)"
| "rx_weight (RRepeat r n) = Suc n * Suc (rx_weight r)"
| "rx_weight (RSeq r1 r2) = Suc (rx_weight r1 + rx_weight r2)"

text \<open>
  \<open>matcher r s i k\<close>: does \<open>r\<close> match the input \<open>s\<close> from position \<open>i\<close>
  so that the continuation \<open>k\<close> accepts the end position? Captures are not
  recorded, since \<open>test\<close> returns only a boolean.
\<close>

function (sequential) matcher :: "regex \<Rightarrow> js_string \<Rightarrow> nat \<Rightarrow> (nat \<Rightarrow> bool) \<Rightarrow> bool" where
  "matcher RBegin s i k = (i = 0 \<and> k i)"
| "matcher REnd s i k = (i = length s \<and> k i)"
| "matcher (RChar c) s i k = (i < length s \<and> s ! i = c \<and> k (Suc i))"
| "matcher (RClass rs) s i k = (i < length s \<and> in_class rs (s ! i) \<and> k (Suc i))"
| "matcher (RGroup r) s i k = matcher r s i k"
| "matcher (RRepeat r 0) s i k = k i"
| "matcher (RRepeat r (Suc n)) s i k = matcher r s i (\<lambda>j. matcher (RRepeat r n) s j k)"
| "matcher (RSeq r1 r2) s i k = matcher r1 s i (\<lambda>j. matcher r2 s j k)"
  by pat_completeness auto
termination
  by (relation "measure (\<lambda>(r, s, i, k). rx_weight r)") auto

text \<open>
  \<open>RegExp.prototype.test\<close> on a regular expression without the \<open>g\<close> or
  \<open>y\<close> flag starts at \<open>lastIndex = 0\<close> and tries every start position up to
  the length of the input.
\<close>

definition regex_test :: "regex \<Rightarrow> js_string \<Rightarrow> bool" where
  "regex_test r s = list_ex (\<lambda>i. matcher r s i (\<lambda>_. True)) [0..<Suc (length s)]"

subsection \<open>The validator\<close>

definition hex_class :: "(char \<times> char) list" where
  "hex_class = [(CHR ''0'', CHR ''9''), (CHR ''A'', CHR ''F''), (CHR ''a'', CHR ''f'')]"

text \<open>\<open>/^#([0-9A-Fa-f]{6})$/\<close>\<close>

definition hexRegex :: regex where
  "hexRegex = RSeq RBegin (RSeq (RChar CHR ''#'') (RSeq (RGroup (RRepeat (RClass hex_class) 6)) REnd))"

definition validateHex :: "js_string \<Rightarrow> bool" where
  "validateHex text = regex_test hexRegex text"

subsection \<open>The specification: a hash and six hexadecimal digits\<close>

definition hex_digits :: "char list" where
  "hex_digits = ''0123456789abcdefABCDEF''"

fun is_hex_color :: "js_string \<Rightarrow> bool" where
  "is_hex_color [] = False"
| "is_hex_color (c # ds) =
     (c = CHR ''#'' \<and> length ds = 6 \<and> list_all (\<lambda>d. d \<in> set hex_digits) ds)"

subsection \<open>The matcher on the constructs of the literal\<close>

lemma hex_class_iff [simp]: "in_class hex_class c \<longleftrightarrow> c \<in> set hex_digits"
proof
  assume "c \<in> set hex_digits"
  then show "in_class hex_class c"
    by (auto simp: hex_digits_def hex_class_def in_class_def)
next
  assume a: "in_class hex_class c"
  define n where "n = (of_char c :: nat)"
  from a have "n \<in> {48..57} \<or> n \<in> {65..70} \<or> n \<in> {97..102}"
    by (simp add: in_class_def hex_class_def n_def)
  then have "n \<in> {48,49,50,51,52,53,54,55,56,57,65,66,67,68,69,70,97,98,99,100,101,102}"
    by (auto simp: atLeastAtMost_iff) arith+
  then have "n \<in> (of_char :: char \<Rightarrow> nat) ` set hex_digits"
    by (auto simp: hex_digits_def)
  then show "c \<in> set hex_digits" by (auto simp: n_def)
qed

text \<open>A quantified class consumes exactly \<open>n\<close> code units of the class.\<close>

lemma matcher_repeat_class:
  "i \<le> length s \<Longrightarrow>
   matcher (RRepeat (RClass rs) n) s i k \<longleftrightarrow>
     i + n \<le> length s \<and> (\<forall>j<n. in_class rs (s ! (i + j))) \<and> k (i + n)"
proof (induction n arbitrary: i)
  case 0
  then show ?case by simp
next
  case (Suc n)
  then show ?case by (auto simp: All_less_Suc2)
qed

text \<open>The anchor \<open>^\<close> makes every start position but the first fail.\<close>

lemma regex_test_anchored:
  "regex_test (RSeq RBegin r) s = matcher r s 0 (\<lambda>_. True)"
proof -
  have "list_ex (\<lambda>i. matcher (RSeq RBegin r) s i (\<lambda>_. True)) [0..<Suc (length s)] \<longleftrightarrow>
        (\<exists>i\<in>set [0..<Suc (length s)]. i = 0 \<and> matcher r s i (\<lambda>_. True))"
    by (simp add: list_ex_iff)
  also have "\<dots> \<longleftrightarrow> matcher r s 0 (\<lambda>_. True)"
    by auto
  finally show ?thesis by (simp add: regex_test_def)
qed

lemma validateHex_nth:
  "validateHex s \<longleftrightarrow>
     length s = 7 \<and> s ! 0 = CHR ''#'' \<and> (\<forall>j<6. s ! Suc j \<in> set hex_digits)"
proof -
  have "validateHex s \<longleftrightarrow>
        0 < length s \<and> s ! 0 = CHR ''#'' \<and>
        matcher (RRepeat (RClass hex_class) 6) s 1 (\<lambda>j. j = length s)"
    by (simp add: validateHex_def hexRegex_def regex_test_anchored)
  also have "\<dots> \<longleftrightarrow> length s = 7 \<and> s ! 0 = CHR ''#'' \<and> (\<forall>j<6. s ! Suc j \<in> set hex_digits)"
  proof (cases "0 < length s")
    case True
    then have "Suc 0 \<le> length s" by linarith
    then show ?thesis by (auto simp: matcher_repeat_class)
  qed auto
  finally show ?thesis .
qed

text \<open>Refinement: the regular-expression test computes the specification.\<close>

lemma validateHex_correct: "validateHex s = is_hex_color s"
proof (cases s)
  case Nil
  then show ?thesis by (simp add: validateHex_nth)
next
  case (Cons c ds)
  have "(\<forall>j<6. ds ! j \<in> set hex_digits) \<longleftrightarrow> list_all (\<lambda>d. d \<in> set hex_digits) ds"
    if "length ds = 6"
    using that by (auto simp: list_all_length)
  with Cons show ?thesis by (auto simp: validateHex_nth)
qed

subsection \<open>Properties\<close>

text \<open>
  C1: \<open>validateHex\<close> accepts a text exactly when it has seven code units, the
  first is \<open>#\<close> and the other six are hexadecimal digits (\<open>0-9\<close>,
  \<open>a-f\<close>, \<open>A-F\<close>): no partial match, no trailing newline, no
  normalisation.
\<close>

theorem validateHex_iff:
  "validateHex s \<longleftrightarrow> length s = 7 \<and> hd s = CHR ''#'' \<and> set (tl s) \<subseteq> set hex_digits"
  by (cases s) (auto simp: validateHex_correct list_all_iff)

end
