(* ===== verification/Screen_State.thy ===== *)
theory Screen_State
  imports Hex_Validator "HOL-Library.Monad_Syntax"
begin

text \<open>
  The data of the \<open>AdvancedQRGenerator\<close> component: its props as
  destructured from the JSX attribute object (lines 25--36, with JavaScript's
  default-parameter rule), the props \<open>App.js\<close> passes, the component's
  state (the \<open>useState\<close> hooks of lines 41--55 and 169--170, the
  \<open>fadeAnim\<close> ref of line 65, and the continuations of \<open>async\<close> handlers
  waiting on a promise), the initial state at mount, the derived
  \<open>isFormValid\<close> (line 62) and the rendered QR element (lines 204--217).
\<close>

subsection \<open>Props\<close>

text \<open>JavaScript values as they can appear in the attribute object.\<close>

datatype jsval =
    JUndefined | JNull | JBool bool | JNum nat | JStr js_string
  | JObject "(string \<times> jsval) list"  \<comment> \<open>an object literal, its entries in order\<close>

type_synonym js_object = "(string \<times> jsval) list"

text \<open>A missing key reads as \<open>undefined\<close>; of two equal JSX attributes the later wins.\<close>

definition prop_get :: "js_object \<Rightarrow> string \<Rightarrow> jsval" where
  "prop_get obj k = (case map_of (rev obj) k of None \<Rightarrow> JUndefined | Some v \<Rightarrow> v)"

text \<open>
  A default parameter \<open>x = d\<close> takes \<open>d\<close> exactly when the value is
  \<open>undefined\<close> (not when it is \<open>null\<close>). A value of a type the component
  does not expect for that prop is outside the model (\<open>None\<close>).
\<close>

fun param_str :: "js_string \<Rightarrow> jsval \<Rightarrow> js_string option" where
  "param_str d JUndefined = Some d"
| "param_str d (JStr s) = Some s"
| "param_str d _ = None"

fun param_bool :: "bool \<Rightarrow> jsval \<Rightarrow> bool option" where
  "param_bool d JUndefined = Some d"
| "param_bool d (JBool b) = Some b"
| "param_bool d _ = None"

fun param_nat :: "nat \<Rightarrow> jsval \<Rightarrow> nat option" where
  "param_nat d JUndefined = Some d"
| "param_nat d (JNum n) = Some n"
| "param_nat d _ = None"

text \<open>A string prop whose default is \<open>null\<close> (or that has no default).\<close>

fun param_opt_str :: "jsval \<Rightarrow> js_string option option" where
  "param_opt_str JUndefined = Some None"
| "param_opt_str JNull = Some None"
| "param_opt_str (JStr s) = Some (Some s)"
| "param_opt_str _ = None"

record qr_props =
  mainButtonText :: "js_string option"
  defaultLogo :: "js_string option"
  defaultLogoSize :: nat
  allowCustomization :: bool
  defaultQRColor :: js_string
  defaultBGColor :: js_string
  defaultContent :: js_string
  defaultLogoBackgroundColor :: js_string

text \<open>
  The parameter list of \<open>AdvancedQRGenerator\<close>; \<open>mainButtonStyle\<close> and
  \<open>mainButtonLabelStyle\<close> only style the trigger button and are not kept.
\<close>

definition destructure_props :: "js_object \<Rightarrow> qr_props option" where
  "destructure_props obj = do {
     mbt \<leftarrow> param_opt_str (prop_get obj ''mainButtonText'');
     dlogo \<leftarrow> param_opt_str (prop_get obj ''defaultLogo'');
     dsize \<leftarrow> param_nat 30 (prop_get obj ''defaultLogoSize'');
     allow \<leftarrow> param_bool True (prop_get obj ''allowCustomization'');
     qc \<leftarrow> param_str ''#000000'' (prop_get obj ''defaultQRColor'');
     bc \<leftarrow> param_str ''#ffffff'' (prop_get obj ''defaultBGColor'');
     dc \<leftarrow> param_str ''https://ejemplo.com'' (prop_get obj ''defaultContent'');
     lbg \<leftarrow> param_str ''transparent'' (prop_get obj ''defaultLogoBackgroundColor'');
     Some \<lparr>mainButtonText = mbt, defaultLogo = dlogo, defaultLogoSize = dsize,
           allowCustomization = allow, defaultQRColor = qc, defaultBGColor = bc,
           defaultContent = dc, defaultLogoBackgroundColor = lbg\<rparr>
   }"

text \<open>The element \<open>App.js\<close> renders (lines 12--18), with its two style object literals.\<close>

definition app_props :: js_object where
  "app_props =
     [(''allowCustomization'', JBool True),
      (''mainButtonText'', JStr ''Abrir QR''),
      (''defaultLink'', JStr ''https://ejemplo.com''),
      (''mainButtonLabelStyle'', JObject [(''color'', JStr ''white'')]),
      (''mainButtonStyle'', JObject [(''backgroundColor'', JStr ''#6200EE'')])]"

text \<open>The props these attributes destructure to (proved below).\<close>

definition app_qr_props :: qr_props where
  "app_qr_props =
     \<lparr>mainButtonText = Some ''Abrir QR'', defaultLogo = None, defaultLogoSize = 30,
      allowCustomization = True, defaultQRColor = ''#000000'', defaultBGColor = ''#ffffff'',
      defaultContent = ''https://ejemplo.com'', defaultLogoBackgroundColor = ''transparent''\<rparr>"

text \<open>
  The attribute object a caller writes to pass given props: every prop as an
  attribute, an absent optional string as \<open>null\<close>.
\<close>

definition opt_str_jsval :: "js_string option \<Rightarrow> jsval" where
  "opt_str_jsval v = (case v of None \<Rightarrow> JNull | Some s \<Rightarrow> JStr s)"

definition props_object :: "qr_props \<Rightarrow> js_object" where
  "props_object q =
     [(''mainButtonText'', opt_str_jsval (mainButtonText q)),
      (''defaultLogo'', opt_str_jsval (defaultLogo q)),
      (''defaultLogoSize'', JNum (defaultLogoSize q)),
      (''allowCustomization'', JBool (allowCustomization q)),
      (''defaultQRColor'', JStr (defaultQRColor q)),
      (''defaultBGColor'', JStr (defaultBGColor q)),
      (''defaultContent'', JStr (defaultContent q)),
      (''defaultLogoBackgroundColor'', JStr (defaultLogoBackgroundColor q))]"

subsection \<open>State\<close>

text \<open>
  \<open>Animated.Value\<close> (\<open>fadeAnim\<close>): the target of the last animation started
  and, while one runs, the completion callback it was started with.
  \<open>closeModal\<close> passes \<open>() => setModalVisible(false)\<close>, \<open>openModal\<close> none.
\<close>

datatype anim_callback = NoCallback | HideModalCallback

record fade_anim =
  fade_toValue :: nat
  fade_running :: "anim_callback option"

text \<open>
  Where an \<open>async\<close> handler is suspended at an \<open>await\<close>: the code after it
  runs when the promise settles.
\<close>

datatype task =
    SaveAwaitPermission       \<comment> \<open>line 126: \<open>await MediaLibrary.requestPermissionsAsync()\<close>\<close>
  | SaveAwaitCapture          \<comment> \<open>line 128: \<open>await captureRef(qrRef, ...)\<close>\<close>
  | SaveAwaitWrite            \<comment> \<open>line 129: \<open>await MediaLibrary.saveToLibraryAsync(uri)\<close>\<close>
  | ShareAwaitCapture         \<comment> \<open>line 110: \<open>await captureRef(qrRef, ...)\<close>\<close>
  | ShareAwaitShare           \<comment> \<open>line 111: \<open>await Sharing.shareAsync(uri)\<close>\<close>
  | PickAwaitPermission       \<comment> \<open>line 86: \<open>await ImagePicker.requestMediaLibraryPermissionsAsync()\<close>\<close>
  | PickAwaitResult           \<comment> \<open>line 94: \<open>await ImagePicker.launchImageLibraryAsync(...)\<close>\<close>

text \<open>How a promise settles, as the environment (the OS, the libraries) decides.\<close>

datatype reply =
    PermissionStatus js_string     \<comment> \<open>\<open>{ status }\<close> of \<open>MediaLibrary.requestPermissionsAsync\<close>\<close>
  | PermissionGranted bool         \<comment> \<open>\<open>{ granted }\<close> of \<open>ImagePicker.requestMediaLibraryPermissionsAsync\<close>\<close>
  | PickerResult "js_string option" \<comment> \<open>\<open>None\<close>: \<open>canceled\<close>; \<open>Some uri\<close>: \<open>assets[0].uri\<close>\<close>
  | CapturedUri js_string          \<comment> \<open>the file URI \<open>captureRef\<close> resolves with\<close>
  | Resolved                       \<comment> \<open>a promise without a value used by the code\<close>
  | Rejected                       \<comment> \<open>the promise rejects (the \<open>await\<close> throws)\<close>

text \<open>The props of the \<open>QRCode\<close> element, which \<open>captureRef\<close> rasterises.\<close>

record qr_view =
  qv_value :: js_string
  qv_size :: nat
  qv_color :: js_string
  qv_backgroundColor :: js_string
  qv_logo :: "(js_string \<times> nat \<times> js_string) option"

text \<open>What the screen does outside its own state.\<close>

datatype effect =
    ShowAlert js_string js_string         \<comment> \<open>\<open>Alert.alert(title, message)\<close>\<close>
  | ConsoleError js_string                \<comment> \<open>\<open>console.error(label, error)\<close>\<close>
  | UnhandledRejection                    \<comment> \<open>a rejected \<open>await\<close> outside any \<open>try\<close>\<close>
  | RequestMediaLibraryPermission
  | RequestImagePickerPermission
  | LaunchImageLibrary
  | CaptureRef qr_view
  | SaveToLibrary js_string
  | ShareAsync js_string

record screen =
  modalVisible :: bool
  content :: js_string
  qrColor :: js_string
  bgColor :: js_string
  includeLogo :: bool
  logo :: "js_string option"
  processing :: bool
  tempQRColor :: js_string
  tempBGColor :: js_string
  qrColorError :: bool
  bgColorError :: bool
  showQRColorPicker :: bool
  showBGColorPicker :: bool
  fadeAnim :: fade_anim
  tasks :: "task list"

text \<open>
  The first render: every \<open>useState\<close> initialiser; \<open>tempQRColor\<close> and
  \<open>tempBGColor\<close> start from the initial colours, \<open>includeLogo\<close> from
  \<open>!!defaultLogo\<close>, \<open>fadeAnim\<close> at \<open>0\<close>.
\<close>

definition mount :: "qr_props \<Rightarrow> screen" where
  "mount p =
     \<lparr>modalVisible = False, content = defaultContent p,
      qrColor = defaultQRColor p, bgColor = defaultBGColor p,
      includeLogo = js_truthy_opt (defaultLogo p), logo = defaultLogo p,
      processing = False,
      tempQRColor = defaultQRColor p, tempBGColor = defaultBGColor p,
      qrColorError = False, bgColorError = False,
      showQRColorPicker = False, showBGColorPicker = False,
      fadeAnim = \<lparr>fade_toValue = 0, fade_running = None\<rparr>,
      tasks = []\<rparr>"

subsection \<open>Derived values of a render\<close>

definition isFormValid :: "screen \<Rightarrow> bool" where
  "isFormValid st \<longleftrightarrow> validateHex (qrColor st) \<and> validateHex (bgColor st)"

text \<open>\<open>value={content || " "}\<close>, and the logo props only under \<open>includeLogo && logo\<close>.\<close>

definition qr_render :: "qr_props \<Rightarrow> screen \<Rightarrow> qr_view" where
  "qr_render p st =
     \<lparr>qv_value = (if js_truthy_str (content st) then content st else '' ''),
      qv_size = 150,
      qv_color = qrColor st,
      qv_backgroundColor = bgColor st,
      qv_logo = (case logo st of
                   None \<Rightarrow> None
                 | Some u \<Rightarrow> if includeLogo st \<and> js_truthy_str u
                             then Some (u, defaultLogoSize p, defaultLogoBackgroundColor p)
                             else None)\<rparr>"

text \<open>The label of the trigger button (lines 180--184).\<close>

definition main_button_label :: "qr_props \<Rightarrow> js_string" where
  "main_button_label p =
     (case mainButtonText p of
        Some t \<Rightarrow> if js_truthy_str t then t
                  else if allowCustomization p then ''Generar QR Avanzado''
                  else ''Ver C'' @ [CHR 0xF3] @ ''digo QR''
      | None \<Rightarrow> if allowCustomization p then ''Generar QR Avanzado''
                else ''Ver C'' @ [CHR 0xF3] @ ''digo QR'')"

text \<open>\<open>disabled={processing || !isFormValid}\<close> of the two action buttons.\<close>

definition actions_disabled :: "screen \<Rightarrow> bool" where
  "actions_disabled st \<longleftrightarrow> processing st \<or> \<not> isFormValid st"

subsection \<open>Lemmas\<close>

lemma prop_get_Cons_other:
  "k' \<noteq> k \<Longrightarrow> prop_get ((k', v) # obj) k = prop_get obj k"
  by (simp add: prop_get_def map_of_append map_add_def split: option.splits)

lemmas screen_state_defs = isFormValid_def qr_render_def mount_def actions_disabled_def

lemma destructure_app_props: "destructure_props app_props = Some app_qr_props"
  by (simp add: destructure_props_def app_props_def app_qr_props_def prop_get_def)

lemma qr_render_frame [simp]:
  "qr_render p (st\<lparr>processing := b\<rparr>) = qr_render p st"
  "qr_render p (st\<lparr>tasks := ts\<rparr>) = qr_render p st"
  by (simp_all add: qr_render_def split: option.splits)

lemma isFormValid_frame [simp]:
  "isFormValid (st\<lparr>processing := b\<rparr>) = isFormValid st"
  "isFormValid (st\<lparr>tasks := ts\<rparr>) = isFormValid st"
  by (simp_all add: isFormValid_def)

lemma isFormValid_spec:
  "isFormValid st \<longleftrightarrow> is_hex_color (qrColor st) \<and> is_hex_color (bgColor st)"
  by (simp add: isFormValid_def validateHex_correct)

subsection \<open>Properties\<close>

text \<open>
  C15: the rendered \<open>QRCode\<close> encodes the content, or a single space when the
  content is empty, in the committed colours, and carries the logo exactly when
  \<open>includeLogo\<close> is on and a non-empty logo URI is set; with the switch on and
  no logo (\<open>null\<close>) it omits the logo.
\<close>

theorem qr_render_props:
  "qv_value (qr_render p st) = (if content st = [] then '' '' else content st) \<and>
   qv_color (qr_render p st) = qrColor st \<and> qv_backgroundColor (qr_render p st) = bgColor st \<and>
   (qv_logo (qr_render p st) = Some (u, n, b) \<longleftrightarrow>
      includeLogo st \<and> logo st = Some u \<and> u \<noteq> [] \<and>
      n = defaultLogoSize p \<and> b = defaultLogoBackgroundColor p)"
  by (auto simp: qr_render_def split: option.splits)

text \<open>
  C16: the component reads no \<open>defaultLink\<close> prop: an attribute of that name,
  which \<open>App.js\<close> passes, changes nothing, so the initial content is the
  \<open>defaultContent\<close> default whatever \<open>defaultLink\<close> says.
\<close>

theorem app_ignores_defaultLink:
  "destructure_props ((''defaultLink'', v) # obj) = destructure_props obj"
  by (simp add: destructure_props_def prop_get_Cons_other)

text \<open>
  C17: the screen \<open>App.js\<close> mounts starts with the example content, the
  default colours (so the form is valid), the label \<open>Abrir QR\<close> on the
  trigger button, customisation allowed, no logo and nothing in progress.
\<close>

theorem app_initial_screen:
  "destructure_props app_props = Some app_qr_props \<and>
   content (mount app_qr_props) = ''https://ejemplo.com'' \<and>
   isFormValid (mount app_qr_props) \<and>
   main_button_label app_qr_props = ''Abrir QR'' \<and>
   allowCustomization app_qr_props \<and>
   \<not> includeLogo (mount app_qr_props) \<and> \<not> processing (mount app_qr_props) \<and>
   \<not> modalVisible (mount app_qr_props)"
  by (simp add: destructure_app_props app_qr_props_def mount_def isFormValid_spec
      main_button_label_def hex_digits_def)

text \<open>
  C27: the props round trip: passing every prop of a props value as an attribute
  (an absent string as \<open>null\<close>) destructures to exactly that value, so each
  prop is read from its own attribute and no default overrides a passed value;
  an empty attribute object destructures to the defaults of the parameter list.
\<close>

theorem destructure_props_object:
  "destructure_props (props_object q) = Some q \<and>
   destructure_props [] =
     Some \<lparr>mainButtonText = None, defaultLogo = None, defaultLogoSize = 30,
           allowCustomization = True, defaultQRColor = ''#000000'', defaultBGColor = ''#ffffff'',
           defaultContent = ''https://ejemplo.com'', defaultLogoBackgroundColor = ''transparent''\<rparr>"
  by (cases "mainButtonText q"; cases "defaultLogo q")
     (simp_all add: destructure_props_def props_object_def opt_str_jsval_def prop_get_def)

end
