(* ===== verification/Modal_Animation.thy ===== *)
theory Modal_Animation
  imports Screen_State
begin

text \<open>
  The main modal's open and close (\<open>openModal\<close>, \<open>closeModal\<close>, lines
  68--82) over a model of React Native's \<open>Animated.timing(...).start(cb)\<close>
  on the \<open>fadeAnim\<close> value. Two facts of the library matter: starting an
  animation on a value stops the one running on it, and a stopped animation
  still calls its completion callback (with \<open>finished: false\<close>). The
  callback \<open>closeModal\<close> passes ignores that flag, so a fade-out that is
  interrupted hides the modal at once, also when the interruption is
  \<open>openModal\<close> itself.
\<close>

subsection \<open>The \<open>Animated\<close> library\<close>

definition run_anim_callback :: "anim_callback \<Rightarrow> screen \<Rightarrow> screen" where
  "run_anim_callback cb st =
     (case cb of NoCallback \<Rightarrow> st | HideModalCallback \<Rightarrow> st\<lparr>modalVisible := False\<rparr>)"

text \<open>\<open>Animated.timing(fadeAnim, {toValue: v}).start(cb)\<close>.\<close>

definition animated_timing_start :: "nat \<Rightarrow> anim_callback \<Rightarrow> screen \<Rightarrow> screen" where
  "animated_timing_start v cb st =
     (let st' = (case fade_running (fadeAnim st) of
                   None \<Rightarrow> st
                 | Some old \<Rightarrow> run_anim_callback old st)
      in st'\<lparr>fadeAnim := \<lparr>fade_toValue = v, fade_running = Some cb\<rparr>\<rparr>)"

text \<open>The running animation reaches its target and calls its callback.\<close>

definition fade_animation_end :: "screen \<Rightarrow> screen" where
  "fade_animation_end st =
     (case fade_running (fadeAnim st) of
        None \<Rightarrow> st
      | Some cb \<Rightarrow> run_anim_callback cb (st\<lparr>fadeAnim := (fadeAnim st)\<lparr>fade_running := None\<rparr>\<rparr>))"

subsection \<open>The component's handlers\<close>

definition openModal :: "screen \<Rightarrow> screen" where
  "openModal st = animated_timing_start 1 NoCallback (st\<lparr>modalVisible := True\<rparr>)"

definition closeModal :: "screen \<Rightarrow> screen" where
  "closeModal st = animated_timing_start 0 HideModalCallback st"

lemmas modal_defs = openModal_def closeModal_def fade_animation_end_def

subsection \<open>The animation invariant\<close>

text \<open>A running animation heads to \<open>1\<close> exactly when it is the fade-in.\<close>

fun anim_consistent :: "fade_anim \<Rightarrow> bool" where
  "anim_consistent a =
     (case fade_running a of
        None \<Rightarrow> True
      | Some NoCallback \<Rightarrow> fade_toValue a = 1
      | Some HideModalCallback \<Rightarrow> fade_toValue a = 0)"

lemmas anim_defs = animated_timing_start_def run_anim_callback_def Let_def

lemma run_anim_callback_fields [simp]:
  "fadeAnim (run_anim_callback cb st) = fadeAnim st"
  "content (run_anim_callback cb st) = content st"
  "qrColor (run_anim_callback cb st) = qrColor st"
  "bgColor (run_anim_callback cb st) = bgColor st"
  "includeLogo (run_anim_callback cb st) = includeLogo st"
  "logo (run_anim_callback cb st) = logo st"
  "processing (run_anim_callback cb st) = processing st"
  "tasks (run_anim_callback cb st) = tasks st"
  "showQRColorPicker (run_anim_callback cb st) = showQRColorPicker st"
  "showBGColorPicker (run_anim_callback cb st) = showBGColorPicker st"
  "qrColorError (run_anim_callback cb st) = qrColorError st"
  "bgColorError (run_anim_callback cb st) = bgColorError st"
  "tempQRColor (run_anim_callback cb st) = tempQRColor st"
  "tempBGColor (run_anim_callback cb st) = tempBGColor st"
  by (cases cb; simp add: run_anim_callback_def)+

text \<open>Starting an animation changes only the modal flag and the animation.\<close>

lemma animated_timing_start_eq:
  "animated_timing_start v cb st =
     st\<lparr>modalVisible := (modalVisible st \<and> fade_running (fadeAnim st) \<noteq> Some HideModalCallback),
        fadeAnim := \<lparr>fade_toValue = v, fade_running = Some cb\<rparr>\<rparr>"
  by (auto simp: anim_defs split: option.splits anim_callback.splits)

lemma fade_animation_end_fields [simp]:
  "content (fade_animation_end st) = content st"
  "qrColor (fade_animation_end st) = qrColor st"
  "bgColor (fade_animation_end st) = bgColor st"
  "includeLogo (fade_animation_end st) = includeLogo st"
  "logo (fade_animation_end st) = logo st"
  "processing (fade_animation_end st) = processing st"
  "tasks (fade_animation_end st) = tasks st"
  "showQRColorPicker (fade_animation_end st) = showQRColorPicker st"
  "showBGColorPicker (fade_animation_end st) = showBGColorPicker st"
  "qrColorError (fade_animation_end st) = qrColorError st"
  "bgColorError (fade_animation_end st) = bgColorError st"
  "tempQRColor (fade_animation_end st) = tempQRColor st"
  "tempBGColor (fade_animation_end st) = tempBGColor st"
  by (simp_all add: fade_animation_end_def split: option.splits)

lemma anim_consistent_openModal: "anim_consistent (fadeAnim (openModal st))"
  by (simp add: openModal_def anim_defs split: option.splits)

lemma anim_consistent_closeModal: "anim_consistent (fadeAnim (closeModal st))"
  by (simp add: closeModal_def anim_defs split: option.splits)

lemma anim_consistent_fade_end:
  "anim_consistent (fadeAnim st) \<Longrightarrow> anim_consistent (fadeAnim (fade_animation_end st))"
  by (simp add: fade_animation_end_def split: option.splits)

text \<open>Opening while a fade-out runs: the stopped fade-out's callback hides the modal.\<close>

lemma openModal_visible_iff:
  "modalVisible (openModal st) \<longleftrightarrow> fade_running (fadeAnim st) \<noteq> Some HideModalCallback"
  by (auto simp: openModal_def anim_defs split: option.splits anim_callback.splits)

subsection \<open>Properties\<close>

text \<open>
  C18: a close whose fade-out completes hides the modal; an open whose fade-in
  completes shows it, provided no fade-out was running when it started.
\<close>

theorem close_then_fade_end_hides_modal:
  "\<not> modalVisible (fade_animation_end (closeModal st)) \<and>
   (fade_running (fadeAnim st) \<noteq> Some HideModalCallback \<longrightarrow>
      modalVisible (fade_animation_end (openModal st)))"
  by (simp add: modal_defs anim_defs split: option.splits anim_callback.splits)

theorem close_then_fade_end_hides_modal_witness:
  "fade_running (fadeAnim (mount app_qr_props)) \<noteq> Some HideModalCallback \<and>
   modalVisible (fade_animation_end (openModal (mount app_qr_props)))"
proof -
  have h: "fade_running (fadeAnim (mount app_qr_props)) \<noteq> Some HideModalCallback"
    by (simp add: mount_def)
  with close_then_fade_end_hides_modal [of "mount app_qr_props"] show ?thesis by simp
qed

end
