(* ===== verification/Color_Inputs.thy ===== *)
theory Color_Inputs
  imports Screen_State
begin

text \<open>
  The customisation form: the content field (line 229), the two colour text
  fields with their error flags (lines 239--251 and 259--271), the logo switch
  (line 278), and the colour-picker sub-flow of each colour (lines 144--166,
  335 and 373). Every handler is a state update; the picker keeps a scratch
  colour (\<open>tempQRColor\<close>, \<open>tempBGColor\<close>) that only \<open>confirm\<close> copies
  into the committed colour. A handler reads the state of the last render, which
  in the model is the current state.
\<close>

subsection \<open>Text fields and the logo switch\<close>

text \<open>\<open>onChangeText={setContent}\<close>\<close>

definition onContentChangeText :: "js_string \<Rightarrow> screen \<Rightarrow> screen" where
  "onContentChangeText text st = st\<lparr>content := text\<rparr>"

text \<open>\<open>setQRColor(text); setQRColorError(!validateHex(text));\<close>\<close>

definition onQRColorChangeText :: "js_string \<Rightarrow> screen \<Rightarrow> screen" where
  "onQRColorChangeText text st = st\<lparr>qrColor := text, qrColorError := \<not> validateHex text\<rparr>"

text \<open>\<open>onBlur={() => setQRColorError(!validateHex(qrColor))}\<close>\<close>

definition onQRColorBlur :: "screen \<Rightarrow> screen" where
  "onQRColorBlur st = st\<lparr>qrColorError := \<not> validateHex (qrColor st)\<rparr>"

definition onBGColorChangeText :: "js_string \<Rightarrow> screen \<Rightarrow> screen" where
  "onBGColorChangeText text st = st\<lparr>bgColor := text, bgColorError := \<not> validateHex text\<rparr>"

definition onBGColorBlur :: "screen \<Rightarrow> screen" where
  "onBGColorBlur st = st\<lparr>bgColorError := \<not> validateHex (bgColor st)\<rparr>"

text \<open>\<open>onValueChange={setIncludeLogo}\<close>: the logo itself is kept when the switch goes off.\<close>

definition onLogoSwitchChange :: "bool \<Rightarrow> screen \<Rightarrow> screen" where
  "onLogoSwitchChange v st = st\<lparr>includeLogo := v\<rparr>"

subsection \<open>The colour pickers\<close>

definition openQRColorModal :: "screen \<Rightarrow> screen" where
  "openQRColorModal st = st\<lparr>tempQRColor := qrColor st, showQRColorPicker := True\<rparr>"

definition closeQRColorModal :: "screen \<Rightarrow> screen" where
  "closeQRColorModal st = st\<lparr>showQRColorPicker := False\<rparr>"

definition confirmQRColor :: "screen \<Rightarrow> screen" where
  "confirmQRColor st = st\<lparr>qrColor := tempQRColor st, showQRColorPicker := False\<rparr>"

text \<open>\<open>onChange={({ hex }) => setTempQRColor(hex)}\<close>\<close>

definition onQRPickerChange :: "js_string \<Rightarrow> screen \<Rightarrow> screen" where
  "onQRPickerChange hex st = st\<lparr>tempQRColor := hex\<rparr>"

definition openBGColorModal :: "screen \<Rightarrow> screen" where
  "openBGColorModal st = st\<lparr>tempBGColor := bgColor st, showBGColorPicker := True\<rparr>"

definition closeBGColorModal :: "screen \<Rightarrow> screen" where
  "closeBGColorModal st = st\<lparr>showBGColorPicker := False\<rparr>"

definition confirmBGColor :: "screen \<Rightarrow> screen" where
  "confirmBGColor st = st\<lparr>bgColor := tempBGColor st, showBGColorPicker := False\<rparr>"

definition onBGPickerChange :: "js_string \<Rightarrow> screen \<Rightarrow> screen" where
  "onBGPickerChange hex st = st\<lparr>tempBGColor := hex\<rparr>"

declare onContentChangeText_def [handler_defs] onQRColorChangeText_def [handler_defs]
  onQRColorBlur_def [handler_defs] onBGColorChangeText_def [handler_defs]
  onBGColorBlur_def [handler_defs] onLogoSwitchChange_def [handler_defs]
  openQRColorModal_def [handler_defs] closeQRColorModal_def [handler_defs]
  confirmQRColor_def [handler_defs] onQRPickerChange_def [handler_defs]
  openBGColorModal_def [handler_defs] closeBGColorModal_def [handler_defs]
  confirmBGColor_def [handler_defs] onBGPickerChange_def [handler_defs]

subsection \<open>Lemmas\<close>

text \<open>A sequence of picker changes leaves the last colour in the scratch value and nothing else.\<close>

lemma fold_onQRPickerChange:
  "fold onQRPickerChange hs st = st\<lparr>tempQRColor := last (tempQRColor st # hs)\<rparr>"
  by (induction hs arbitrary: st) (simp_all add: onQRPickerChange_def)

lemma fold_onBGPickerChange:
  "fold onBGPickerChange hs st = st\<lparr>tempBGColor := last (tempBGColor st # hs)\<rparr>"
  by (induction hs arbitrary: st) (simp_all add: onBGPickerChange_def)

subsection \<open>Properties\<close>

text \<open>
  C5: opening a colour picker, moving it through any sequence of colours and
  confirming commits exactly the last colour picked (the colour before opening
  when the picker was not moved) and closes the picker; for both colours.
\<close>

theorem confirm_commits_last_scratch:
  "qrColor (confirmQRColor (fold onQRPickerChange hs (openQRColorModal st))) = last (qrColor st # hs) \<and>
   \<not> showQRColorPicker (confirmQRColor (fold onQRPickerChange hs (openQRColorModal st))) \<and>
   bgColor (confirmBGColor (fold onBGPickerChange hs (openBGColorModal st))) = last (bgColor st # hs) \<and>
   \<not> showBGColorPicker (confirmBGColor (fold onBGPickerChange hs (openBGColorModal st)))"
  by (simp add: fold_onQRPickerChange fold_onBGPickerChange handler_defs)

text \<open>
  C6: cancelling a colour picker after any sequence of changes leaves the
  committed colour as it was before the picker opened, and closes the picker;
  the scratch value keeps the last colour picked.
\<close>

theorem cancel_keeps_committed_color:
  "qrColor (closeQRColorModal (fold onQRPickerChange hs (openQRColorModal st))) = qrColor st \<and>
   tempQRColor (closeQRColorModal (fold onQRPickerChange hs (openQRColorModal st))) = last (qrColor st # hs) \<and>
   \<not> showQRColorPicker (closeQRColorModal (fold onQRPickerChange hs (openQRColorModal st))) \<and>
   bgColor (closeBGColorModal (fold onBGPickerChange hs (openBGColorModal st))) = bgColor st \<and>
   tempBGColor (closeBGColorModal (fold onBGPickerChange hs (openBGColorModal st))) = last (bgColor st # hs) \<and>
   \<not> showBGColorPicker (closeBGColorModal (fold onBGPickerChange hs (openBGColorModal st)))"
  by (simp add: fold_onQRPickerChange fold_onBGPickerChange handler_defs)

end
