(* ===== verification/Export_Actions.thy ===== *)
theory Export_Actions
  imports Screen_State
begin

text \<open>
  The three \<open>async\<close> handlers: \<open>handlePickLogo\<close> (lines 84--101),
  \<open>handleShare\<close> (lines 103--117) and \<open>handleSave\<close> (lines 119--142).
  Each is split at its \<open>await\<close>s: the synchronous part runs when the button
  is pressed and leaves a \<open>task\<close> waiting for the promise; each continuation
  takes the \<open>reply\<close> the promise settles with and either waits again (a new
  task) or finishes (no task). \<open>try\<close>/\<open>catch\<close>/\<open>finally\<close> become the
  branches on \<open>Rejected\<close>, and \<open>finally { setProcessing(false) }\<close> is
  \<open>finish_export\<close> on every path that leaves the \<open>try\<close>.
\<close>

subsection \<open>Messages\<close>

definition msg_fix_errors :: js_string where
  "msg_fix_errors = ''Por favor, corrige los errores en los campos.''"

definition msg_saved :: js_string where
  "msg_saved = ''El c'' @ [CHR 0xF3] @ ''digo QR se ha guardado en tu galer'' @ [CHR 0xED] @ ''a.''"

definition msg_save_denied :: js_string where
  "msg_save_denied = ''No se concedieron permisos para la galer'' @ [CHR 0xED] @ ''a.''"

definition msg_pick_denied :: js_string where
  "msg_pick_denied =
     ''Se requiere acceso a la galer'' @ [CHR 0xED] @ ''a para seleccionar un logo.''"

subsection \<open>Continuations\<close>

type_synonym continuation_result = "task option \<times> screen \<times> effect list"

text \<open>\<open>finally { setProcessing(false); }\<close>\<close>

definition finish_export :: "screen \<Rightarrow> screen" where
  "finish_export st = st\<lparr>processing := False\<rparr>"

text \<open>
  A reply of another kind than the awaited promise yields does not resume the
  task: it stays where it is (the last equation of each continuation).
\<close>

text \<open>handleSave after the permission request (lines 126--141).\<close>

fun save_after_permission :: "qr_props \<Rightarrow> reply \<Rightarrow> screen \<Rightarrow> continuation_result" where
  "save_after_permission p (PermissionStatus status) st =
     (if status = ''granted''
      then (Some SaveAwaitCapture, st, [CaptureRef (qr_render p st)])
      else (None, finish_export st, [ShowAlert ''Permiso denegado'' msg_save_denied]))"
| "save_after_permission p Rejected st =
     (None, finish_export st, [ConsoleError ''Error al guardar:''])"
| "save_after_permission p r st = (Some SaveAwaitPermission, st, [])"

text \<open>handleSave after \<open>captureRef\<close> (lines 128--129, 137--141).\<close>

fun save_after_capture :: "reply \<Rightarrow> screen \<Rightarrow> continuation_result" where
  "save_after_capture (CapturedUri uri) st = (Some SaveAwaitWrite, st, [SaveToLibrary uri])"
| "save_after_capture Rejected st = (None, finish_export st, [ConsoleError ''Error al guardar:''])"
| "save_after_capture r st = (Some SaveAwaitCapture, st, [])"

text \<open>handleSave after \<open>saveToLibraryAsync\<close> (lines 129--130, 137--141).\<close>

fun save_after_write :: "reply \<Rightarrow> screen \<Rightarrow> continuation_result" where
  "save_after_write Resolved st = (None, finish_export st, [ShowAlert ''Guardado'' msg_saved])"
| "save_after_write Rejected st = (None, finish_export st, [ConsoleError ''Error al guardar:''])"
| "save_after_write r st = (Some SaveAwaitWrite, st, [])"

text \<open>handleShare after \<open>captureRef\<close> (lines 110--116).\<close>

fun share_after_capture :: "reply \<Rightarrow> screen \<Rightarrow> continuation_result" where
  "share_after_capture (CapturedUri uri) st = (Some ShareAwaitShare, st, [ShareAsync uri])"
| "share_after_capture Rejected st = (None, finish_export st, [ConsoleError ''Error al compartir:''])"
| "share_after_capture r st = (Some ShareAwaitCapture, st, [])"

text \<open>handleShare after \<open>shareAsync\<close> (lines 111--116).\<close>

fun share_after_share :: "reply \<Rightarrow> screen \<Rightarrow> continuation_result" where
  "share_after_share Resolved st = (None, finish_export st, [])"
| "share_after_share Rejected st = (None, finish_export st, [ConsoleError ''Error al compartir:''])"
| "share_after_share r st = (Some ShareAwaitShare, st, [])"

text \<open>
  handlePickLogo after the permission request (lines 87--97). There is no
  \<open>try\<close>: a rejection is an unhandled promise rejection.
\<close>

fun pick_after_permission :: "reply \<Rightarrow> screen \<Rightarrow> continuation_result" where
  "pick_after_permission (PermissionGranted granted) st =
     (if \<not> granted then (None, st, [ShowAlert ''Permiso denegado'' msg_pick_denied])
      else (Some PickAwaitResult, st, [LaunchImageLibrary]))"
| "pick_after_permission Rejected st = (None, st, [UnhandledRejection])"
| "pick_after_permission r st = (Some PickAwaitPermission, st, [])"

text \<open>handlePickLogo after the image picker (lines 98--100).\<close>

fun pick_after_result :: "reply \<Rightarrow> screen \<Rightarrow> continuation_result" where
  "pick_after_result (PickerResult res) st =
     (None, (case res of None \<Rightarrow> st | Some uri \<Rightarrow> st\<lparr>logo := Some uri\<rparr>), [])"
| "pick_after_result Rejected st = (None, st, [UnhandledRejection])"
| "pick_after_result r st = (Some PickAwaitResult, st, [])"

text \<open>The continuation a task stands for.\<close>

fun resume_task :: "qr_props \<Rightarrow> task \<Rightarrow> reply \<Rightarrow> screen \<Rightarrow> continuation_result" where
  "resume_task p SaveAwaitPermission r st = save_after_permission p r st"
| "resume_task p SaveAwaitCapture r st = save_after_capture r st"
| "resume_task p SaveAwaitWrite r st = save_after_write r st"
| "resume_task p ShareAwaitCapture r st = share_after_capture r st"
| "resume_task p ShareAwaitShare r st = share_after_share r st"
| "resume_task p PickAwaitPermission r st = pick_after_permission r st"
| "resume_task p PickAwaitResult r st = pick_after_result r st"

subsection \<open>The handlers' synchronous parts\<close>

definition handlePickLogo :: "screen \<Rightarrow> screen \<times> effect list" where
  "handlePickLogo st = (st\<lparr>tasks := tasks st @ [PickAwaitPermission]\<rparr>, [RequestImagePickerPermission])"

text \<open>
  The validation guard, then \<open>setProcessing(true)\<close> and \<open>captureRef\<close> of the
  view on screen, before the first \<open>await\<close>.
\<close>

definition handleShare :: "qr_props \<Rightarrow> screen \<Rightarrow> screen \<times> effect list" where
  "handleShare p st =
     (if \<not> isFormValid st then (st, [ShowAlert ''Error'' msg_fix_errors])
      else (st\<lparr>processing := True, tasks := tasks st @ [ShareAwaitCapture]\<rparr>,
            [CaptureRef (qr_render p st)]))"

definition handleSave :: "screen \<Rightarrow> screen \<times> effect list" where
  "handleSave st =
     (if \<not> isFormValid st then (st, [ShowAlert ''Error'' msg_fix_errors])
      else (st\<lparr>processing := True, tasks := tasks st @ [SaveAwaitPermission]\<rparr>,
            [RequestMediaLibraryPermission]))"

declare handlePickLogo_def [handler_defs] handleShare_def [handler_defs]
  handleSave_def [handler_defs]

declare finish_export_def [continuation_defs]

subsection \<open>Export tasks and their progress\<close>

fun is_export_task :: "task \<Rightarrow> bool" where
  "is_export_task PickAwaitPermission = False"
| "is_export_task PickAwaitResult = False"
| "is_export_task t = True"

text \<open>How many promises an export still has to wait for, at most.\<close>

fun export_stage :: "task \<Rightarrow> nat" where
  "export_stage SaveAwaitPermission = 3"
| "export_stage SaveAwaitCapture = 2"
| "export_stage SaveAwaitWrite = 1"
| "export_stage ShareAwaitCapture = 2"
| "export_stage ShareAwaitShare = 1"
| "export_stage PickAwaitPermission = 0"
| "export_stage PickAwaitResult = 0"

text \<open>The replies a task's promise can settle with.\<close>

fun reply_fits :: "task \<Rightarrow> reply \<Rightarrow> bool" where
  "reply_fits t Rejected = True"
| "reply_fits SaveAwaitPermission (PermissionStatus s) = True"
| "reply_fits SaveAwaitCapture (CapturedUri u) = True"
| "reply_fits ShareAwaitCapture (CapturedUri u) = True"
| "reply_fits SaveAwaitWrite Resolved = True"
| "reply_fits ShareAwaitShare Resolved = True"
| "reply_fits PickAwaitPermission (PermissionGranted g) = True"
| "reply_fits PickAwaitResult (PickerResult r) = True"
| "reply_fits t r = False"

subsection \<open>Lemmas\<close>

lemma export_stage_pos: "is_export_task t \<longleftrightarrow> 0 < export_stage t"
  by (cases t) simp_all

text \<open>
  What a continuation does, by the kind of task. An export continuation either
  finishes and clears \<open>processing\<close>, or waits again at a later stage of the
  same export (at the same stage when the reply does not fit) without changing
  the state. A picker continuation changes at most \<open>logo\<close> and never
  becomes an export.
\<close>

lemma resume_export_cases:
  assumes "is_export_task t" and "resume_task p t r st = (t', st', effs)"
  shows "(t' = None \<and> st' = finish_export st) \<or>
         (\<exists>u. t' = Some u \<and> st' = st \<and> is_export_task u \<and>
              (if reply_fits t r then export_stage u < export_stage t else u = t))"
  using assms by (cases t; cases r) (auto split: if_splits)

text \<open>A continuation writes at most \<open>processing\<close> and \<open>logo\<close>.\<close>

lemma resume_task_frame:
  "resume_task p t r st = (t', st', effs) \<Longrightarrow>
   st' = st\<lparr>processing := processing st', logo := logo st'\<rparr>"
  by (cases t; cases r) (auto simp: finish_export_def split: if_splits option.splits)

lemma resume_pick_cases:
  assumes "\<not> is_export_task t" and "resume_task p t r st = (t', st', effs)"
  shows "st' = st\<lparr>logo := logo st'\<rparr> \<and> (\<forall>u. t' = Some u \<longrightarrow> \<not> is_export_task u)"
  using assms by (cases t; cases r) (auto split: if_splits option.splits)

subsection \<open>Properties\<close>

text \<open>
  C2: pressing save or share while a colour is not a valid hex colour shows the
  validation alert and does nothing else: no permission request, no capture,
  no change of state (\<open>processing\<close> stays as it was).
\<close>

theorem export_blocked_when_invalid:
  assumes "\<not> isFormValid st"
  shows "handleSave st = (st, [ShowAlert ''Error'' msg_fix_errors]) \<and>
         handleShare p st = (st, [ShowAlert ''Error'' msg_fix_errors])"
  using assms by (simp add: handleSave_def handleShare_def)

text \<open>The scenario of the spec: a five-digit QR colour \<open>#12345\<close>.\<close>

theorem export_blocked_when_invalid_witness:
  "\<not> isFormValid ((mount app_qr_props)\<lparr>qrColor := ''#12345''\<rparr>) \<and>
   handleSave ((mount app_qr_props)\<lparr>qrColor := ''#12345''\<rparr>) =
     ((mount app_qr_props)\<lparr>qrColor := ''#12345''\<rparr>, [ShowAlert ''Error'' msg_fix_errors])"
proof -
  have h: "\<not> isFormValid ((mount app_qr_props)\<lparr>qrColor := ''#12345''\<rparr>)"
    by (simp add: isFormValid_spec)
  with export_blocked_when_invalid [OF h] show ?thesis by simp
qed

text \<open>
  C8: when the media-library permission is not granted (any status other than
  \<open>granted\<close>), save shows the permission-denied alert, captures nothing,
  clears \<open>processing\<close> and finishes.
\<close>

theorem save_permission_denied:
  assumes "status \<noteq> ''granted''"
  shows "save_after_permission p (PermissionStatus status) st =
           (None, st\<lparr>processing := False\<rparr>, [ShowAlert ''Permiso denegado'' msg_save_denied])"
  using assms by (simp add: finish_export_def)

theorem save_permission_denied_witness:
  "''denied'' \<noteq> ''granted'' \<and>
   save_after_permission app_qr_props (PermissionStatus ''denied'') (mount app_qr_props) =
     (None, (mount app_qr_props)\<lparr>processing := False\<rparr>,
      [ShowAlert ''Permiso denegado'' msg_save_denied])"
proof -
  have h: "''denied'' \<noteq> ''granted''" by simp
  with save_permission_denied [OF h] show ?thesis by simp
qed

text \<open>
  C9: when any awaited call of an export fails (permission request, capture,
  save or share), the error is only logged: no alert is shown, \<open>processing\<close>
  is cleared and the export finishes.
\<close>

theorem export_rejection_clears_processing:
  assumes "is_export_task t"
  shows "\<exists>label. resume_task p t Rejected st = (None, st\<lparr>processing := False\<rparr>, [ConsoleError label])"
  using assms by (cases t) (simp_all add: finish_export_def)

theorem export_rejection_clears_processing_witness:
  "is_export_task SaveAwaitWrite \<and>
   (\<exists>label. resume_task app_qr_props SaveAwaitWrite Rejected (mount app_qr_props) =
      (None, (mount app_qr_props)\<lparr>processing := False\<rparr>, [ConsoleError label]))"
proof -
  have h: "is_export_task SaveAwaitWrite" by simp
  with export_rejection_clears_processing [OF h] show ?thesis by simp
qed

end
