(* ===== verification/Screen.thy ===== *)
theory Screen
  imports Modal_Animation Color_Inputs Export_Actions
begin

text \<open>
  The whole screen as a state machine. An \<open>event\<close> is a user action on a
  control of the rendered tree (with the handler the JSX wires to it), the end
  of the running fade animation, or the settling of the promise a suspended
  handler waits for. \<open>step\<close> runs the handler; \<open>enabled\<close> says which
  events the rendered screen offers (a disabled button, a control under a modal,
  a field hidden by \<open>allowCustomization\<close> offers none). Each event is handled
  against the state of the last render, and the screen re-renders between
  events. The reachable states are those of the runs of enabled events from
  \<open>mount\<close>.
\<close>

subsection \<open>Events and the step function\<close>

datatype event =
    PressMainButton
  | RequestCloseModal
  | FadeAnimationEnd
  | ContentChangeText js_string
  | QRColorChangeText js_string
  | QRColorBlur
  | BGColorChangeText js_string
  | BGColorBlur
  | LogoSwitchChange bool
  | PressPickLogo
  | PressSave
  | PressShare
  | PressQRColorCircle
  | QRPickerChange js_string
  | QRPickerCancel
  | QRPickerConfirm
  | PressBGColorCircle
  | BGPickerChange js_string
  | BGPickerCancel
  | BGPickerConfirm
  | Resume nat reply

text \<open>
  The promise of the \<open>i\<close>-th suspended handler settles: its continuation runs,
  and the task is replaced by the next await or removed.
\<close>

definition resume :: "qr_props \<Rightarrow> nat \<Rightarrow> reply \<Rightarrow> screen \<Rightarrow> screen \<times> effect list" where
  "resume p i r st =
     (if i < length (tasks st) then
        (case resume_task p (tasks st ! i) r st of
           (t', st', effs) \<Rightarrow>
             (st'\<lparr>tasks := (case t' of None \<Rightarrow> remove_nth i (tasks st)
                                    | Some t \<Rightarrow> (tasks st)[i := t])\<rparr>, effs))
      else (st, []))"

fun step :: "qr_props \<Rightarrow> event \<Rightarrow> screen \<Rightarrow> screen \<times> effect list" where
  "step p PressMainButton st = (openModal st, [])"
| "step p RequestCloseModal st = (closeModal st, [])"
| "step p FadeAnimationEnd st = (fade_animation_end st, [])"
| "step p (ContentChangeText text) st = (onContentChangeText text st, [])"
| "step p (QRColorChangeText text) st = (onQRColorChangeText text st, [])"
| "step p QRColorBlur st = (onQRColorBlur st, [])"
| "step p (BGColorChangeText text) st = (onBGColorChangeText text st, [])"
| "step p BGColorBlur st = (onBGColorBlur st, [])"
| "step p (LogoSwitchChange v) st = (onLogoSwitchChange v st, [])"
| "step p PressPickLogo st = handlePickLogo st"
| "step p PressSave st = handleSave st"
| "step p PressShare st = handleShare p st"
| "step p PressQRColorCircle st = (openQRColorModal st, [])"
| "step p (QRPickerChange hex) st = (onQRPickerChange hex st, [])"
| "step p QRPickerCancel st = (closeQRColorModal st, [])"
| "step p QRPickerConfirm st = (confirmQRColor st, [])"
| "step p PressBGColorCircle st = (openBGColorModal st, [])"
| "step p (BGPickerChange hex) st = (onBGPickerChange hex st, [])"
| "step p BGPickerCancel st = (closeBGColorModal st, [])"
| "step p BGPickerConfirm st = (confirmBGColor st, [])"
| "step p (Resume i r) st = resume p i r st"

subsection \<open>What the rendered screen offers\<close>

text \<open>
  A picker modal is rendered under \<open>allowCustomization && show...ColorPicker\<close>
  (lines 318 and 356) and covers everything below it.
\<close>

definition picker_open :: "qr_props \<Rightarrow> screen \<Rightarrow> bool" where
  "picker_open p st \<longleftrightarrow> allowCustomization p \<and> (showQRColorPicker st \<or> showBGColorPicker st)"

text \<open>The main modal's controls can be touched: it is shown and no picker covers it.\<close>

definition form_reachable :: "qr_props \<Rightarrow> screen \<Rightarrow> bool" where
  "form_reachable p st \<longleftrightarrow> modalVisible st \<and> \<not> picker_open p st"

fun enabled :: "qr_props \<Rightarrow> screen \<Rightarrow> event \<Rightarrow> bool" where
  "enabled p st PressMainButton = (\<not> modalVisible st \<and> \<not> picker_open p st)"
| "enabled p st RequestCloseModal = form_reachable p st"
| "enabled p st FadeAnimationEnd = (fade_running (fadeAnim st) \<noteq> None)"
| "enabled p st PressPickLogo = (form_reachable p st \<and> allowCustomization p \<and> includeLogo st)"
| "enabled p st PressSave = (form_reachable p st \<and> \<not> actions_disabled st)"
| "enabled p st PressShare = (form_reachable p st \<and> \<not> actions_disabled st)"
| "enabled p st (QRPickerChange hex) = (allowCustomization p \<and> showQRColorPicker st)"
| "enabled p st QRPickerCancel = (allowCustomization p \<and> showQRColorPicker st)"
| "enabled p st QRPickerConfirm = (allowCustomization p \<and> showQRColorPicker st)"
| "enabled p st (BGPickerChange hex) = (allowCustomization p \<and> showBGColorPicker st)"
| "enabled p st BGPickerCancel = (allowCustomization p \<and> showBGColorPicker st)"
| "enabled p st BGPickerConfirm = (allowCustomization p \<and> showBGColorPicker st)"
| "enabled p st (Resume i r) = (i < length (tasks st) \<and> reply_fits (tasks st ! i) r)"
| "enabled p st e = (form_reachable p st \<and> allowCustomization p)"

subsection \<open>Runs and reachable states\<close>

fun run :: "qr_props \<Rightarrow> screen \<Rightarrow> event list \<Rightarrow> screen \<times> effect list" where
  "run p st [] = (st, [])"
| "run p st (e # es) =
     (let r1 = step p e st; r2 = run p (fst r1) es in (fst r2, snd r1 @ snd r2))"

fun enabled_run :: "qr_props \<Rightarrow> screen \<Rightarrow> event list \<Rightarrow> bool" where
  "enabled_run p st [] = True"
| "enabled_run p st (e # es) = (enabled p st e \<and> enabled_run p (fst (step p e st)) es)"

inductive reachable :: "qr_props \<Rightarrow> screen \<Rightarrow> bool" for p where
  mount: "reachable p (mount p)"
| step: "reachable p st \<Longrightarrow> enabled p st e \<Longrightarrow> reachable p (fst (step p e st))"

text \<open>The events other than the three buttons with async handlers and \<open>Resume\<close>.\<close>

fun sync_event :: "event \<Rightarrow> bool" where
  "sync_event PressPickLogo = False"
| "sync_event PressSave = False"
| "sync_event PressShare = False"
| "sync_event (Resume i r) = False"
| "sync_event e = True"

subsection \<open>Lemmas on runs\<close>

lemma run_Cons_fst [simp]: "fst (run p st (e # es)) = fst (run p (fst (step p e st)) es)"
  by (simp add: Let_def)

lemma run_Cons_snd [simp]:
  "snd (run p st (e # es)) = snd (step p e st) @ snd (run p (fst (step p e st)) es)"
  by (simp add: Let_def)

declare run.simps(2) [simp del]

lemma reachable_run:
  "reachable p st \<Longrightarrow> enabled_run p st es \<Longrightarrow> reachable p (fst (run p st es))"
proof (induction es arbitrary: st)
  case Nil
  then show ?case by simp
next
  case (Cons e es)
  then have "reachable p (fst (step p e st))" by (auto intro: reachable.step)
  with Cons show ?case by simp
qed

lemma run_append_fst:
  "fst (run p st (es @ es')) = fst (run p (fst (run p st es)) es')"
  by (induction es arbitrary: st) simp_all

lemma enabled_run_append:
  "enabled_run p st (es @ es') \<longleftrightarrow> enabled_run p st es \<and> enabled_run p (fst (run p st es)) es'"
  by (induction es arbitrary: st) auto

lemma resume_out_of_range [simp]: "\<not> i < length (tasks st) \<Longrightarrow> resume p i r st = (st, [])"
  by (simp add: resume_def)

lemma sync_step_frame:
  assumes "sync_event e"
  shows "processing (fst (step p e st)) = processing st"
    and "tasks (fst (step p e st)) = tasks st"
    and "snd (step p e st) = []"
  using assms
  by (cases e; simp add: handler_defs modal_defs animated_timing_start_eq split: option.splits)+


lemma resume_fst:
  assumes "i < length (tasks st)" and "resume_task p (tasks st ! i) r st = (t', st', effs)"
  shows "fst (resume p i r st) =
           st'\<lparr>tasks := (case t' of None \<Rightarrow> remove_nth i (tasks st) | Some t \<Rightarrow> (tasks st)[i := t])\<rparr>"
  using assms by (simp add: resume_def)

lemma resume_task_fields:
  assumes "resume_task p t r st = (t', st', effs)"
  shows "fadeAnim st' = fadeAnim st" "content st' = content st" "qrColor st' = qrColor st"
    "bgColor st' = bgColor st" "includeLogo st' = includeLogo st" "modalVisible st' = modalVisible st"
    "showQRColorPicker st' = showQRColorPicker st" "showBGColorPicker st' = showBGColorPicker st"
    "qrColorError st' = qrColorError st" "bgColorError st' = bgColorError st"
    "tempQRColor st' = tempQRColor st" "tempBGColor st' = tempBGColor st"
  by (subst resume_task_frame [OF assms]; simp)+

text \<open>The facts that evaluate a concrete run from \<open>mount\<close>.\<close>

lemmas screen_eval = mount_def app_qr_props_def isFormValid_spec hex_digits_def
  actions_disabled_def form_reachable_def picker_open_def modal_defs animated_timing_start_eq
  handler_defs resume_def finish_export_def run_anim_callback_def validateHex_correct qr_render_def

subsection \<open>Runs of the handlers\<close>

text \<open>
  C7: from a valid form with nothing pending, a save whose permission is
  granted and whose capture and write succeed requests the permission, captures
  the QR view as rendered, writes the captured file to the media library, shows
  the saved alert and ends with \<open>processing\<close> cleared and nothing pending.
\<close>

theorem save_success_run:
  assumes "isFormValid st" and "tasks st = []"
  shows "run p st [PressSave, Resume 0 (PermissionStatus ''granted''), Resume 0 (CapturedUri u),
                   Resume 0 Resolved] =
           (st\<lparr>processing := False\<rparr>,
            [RequestMediaLibraryPermission, CaptureRef (qr_render p st), SaveToLibrary u,
             ShowAlert ''Guardado'' msg_saved])"
  using assms by (simp add: prod_eq_iff handleSave_def resume_def finish_export_def)

theorem save_success_run_witness:
  "isFormValid (mount app_qr_props) \<and> tasks (mount app_qr_props) = [] \<and>
   run app_qr_props (mount app_qr_props)
     [PressSave, Resume 0 (PermissionStatus ''granted''), Resume 0 (CapturedUri ''file:///qr.png''),
      Resume 0 Resolved] =
   ((mount app_qr_props)\<lparr>processing := False\<rparr>,
    [RequestMediaLibraryPermission, CaptureRef (qr_render app_qr_props (mount app_qr_props)),
     SaveToLibrary ''file:///qr.png'', ShowAlert ''Guardado'' msg_saved])"
proof -
  have v: "isFormValid (mount app_qr_props)" and t: "tasks (mount app_qr_props) = []"
    by (simp_all add: screen_eval)
  from v t save_success_run [OF v t] show ?thesis by simp
qed

text \<open>
  C19: choosing a logo: with permission granted and an image picked the logo
  becomes the picked URI; cancelling the picker leaves the screen as it was; a
  denied permission shows the permission alert and changes nothing.
\<close>

theorem pick_logo_run:
  assumes "tasks st = []"
  shows "run p st [PressPickLogo, Resume 0 (PermissionGranted True), Resume 0 (PickerResult (Some u))] =
           (st\<lparr>logo := Some u\<rparr>, [RequestImagePickerPermission, LaunchImageLibrary]) \<and>
         run p st [PressPickLogo, Resume 0 (PermissionGranted True), Resume 0 (PickerResult None)] =
           (st, [RequestImagePickerPermission, LaunchImageLibrary]) \<and>
         run p st [PressPickLogo, Resume 0 (PermissionGranted False)] =
           (st, [RequestImagePickerPermission, ShowAlert ''Permiso denegado'' msg_pick_denied])"
  using assms by (simp add: prod_eq_iff handlePickLogo_def resume_def)

theorem pick_logo_run_witness:
  "tasks (mount app_qr_props) = [] \<and>
   logo (fst (run app_qr_props (mount app_qr_props)
     [PressPickLogo, Resume 0 (PermissionGranted True), Resume 0 (PickerResult (Some ''file:///logo.png''))]))
   = Some ''file:///logo.png''"
proof -
  have t: "tasks (mount app_qr_props) = []" by (simp add: mount_def)
  from t pick_logo_run [OF t, of app_qr_props "''file:///logo.png''"] show ?thesis by simp
qed

text \<open>
  C20: the validation alert of the export handlers is never shown from the
  screen: when the save or share button accepts a press, the handler passes its
  validation check and starts the export.
\<close>

theorem enabled_export_skips_validation_alert:
  "(enabled p st PressSave \<longrightarrow> snd (step p PressSave st) = [RequestMediaLibraryPermission]) \<and>
   (enabled p st PressShare \<longrightarrow> snd (step p PressShare st) = [CaptureRef (qr_render p st)])"
  by (simp add: handleSave_def handleShare_def actions_disabled_def)

theorem enabled_export_skips_validation_alert_witness:
  "enabled app_qr_props (openModal (mount app_qr_props)) PressSave \<and>
   snd (step app_qr_props PressSave (openModal (mount app_qr_props))) = [RequestMediaLibraryPermission]"
proof -
  have e: "enabled app_qr_props (openModal (mount app_qr_props)) PressSave"
    by (simp add: screen_eval)
  with enabled_export_skips_validation_alert [of app_qr_props "openModal (mount app_qr_props)"]
  show ?thesis by simp
qed

end
