(* ===== verification/Screen_Invariants.thy ===== *)
theory Screen_Invariants
  imports Screen
begin

text \<open>
  Invariants of the reachable states of the screen, each proved by rule
  induction over \<open>reachable\<close> from a one-step lemma: the export invariant
  (\<open>processing\<close> and the export in flight agree), the progress measure of an
  export, the form without customisation, and the fade animation; and a run of
  rejections that settles every pending promise (\<open>drain_tasks\<close>).
\<close>

subsection \<open>Definitions\<close>

text \<open>The export tasks in flight, and the promises they still wait for.\<close>

definition export_count :: "screen \<Rightarrow> nat" where
  "export_count st = length (filter is_export_task (tasks st))"

definition export_rank :: "screen \<Rightarrow> nat" where
  "export_rank st = sum_list (map export_stage (tasks st))"

text \<open>
  The export invariant: at most one export is in flight, and \<open>processing\<close>
  is set exactly while one is.
\<close>

definition export_inv :: "screen \<Rightarrow> bool" where
  "export_inv st \<longleftrightarrow> export_count st \<le> 1 \<and> (processing st \<longleftrightarrow> export_count st = 1)"

text \<open>
  Without \<open>allowCustomization\<close> the form keeps the values of the props and
  no logo picker is ever started.
\<close>

definition fixed_form :: "qr_props \<Rightarrow> screen \<Rightarrow> bool" where
  "fixed_form p st \<longleftrightarrow>
     content st = defaultContent p \<and> qrColor st = defaultQRColor p \<and>
     bgColor st = defaultBGColor p \<and> includeLogo st = js_truthy_opt (defaultLogo p) \<and>
     logo st = defaultLogo p \<and> list_all is_export_task (tasks st)"

subsection \<open>The export invariant\<close>

lemma export_count_add_task [simp]:
  "export_count (st\<lparr>processing := b, tasks := tasks st @ [t]\<rparr>) =
   export_count st + (if is_export_task t then 1 else 0)"
  "export_count (st\<lparr>tasks := tasks st @ [t]\<rparr>) =
   export_count st + (if is_export_task t then 1 else 0)"
  by (simp_all add: export_count_def)

lemma resume_export_inv:
  assumes inv: "export_inv st" and i: "i < length (tasks st)"
  shows "export_inv (fst (resume p i r st))"
proof -
  obtain t' st' effs where eq: "resume_task p (tasks st ! i) r st = (t', st', effs)"
    by (cases "resume_task p (tasks st ! i) r st") auto
  note fst_eq = resume_fst [OF i eq]
  have rm: "length (filter is_export_task (remove_nth i (tasks st))) +
            (if is_export_task (tasks st ! i) then 1 else 0) = export_count st"
    using count_remove_nth [OF i] by (simp add: export_count_def)
  have upd: "\<And>u. length (filter is_export_task ((tasks st)[i := u])) +
            (if is_export_task (tasks st ! i) then 1 else 0) =
            export_count st + (if is_export_task u then 1 else 0)"
    using count_list_update [OF i] by (simp add: export_count_def)
  show ?thesis
  proof (cases "is_export_task (tasks st ! i)")
    case True
    from resume_export_cases [OF True eq] show ?thesis
    proof
      assume "t' = None \<and> st' = finish_export st"
      with fst_eq rm inv True show ?thesis
        by (simp add: export_inv_def export_count_def finish_export_def)
    next
      assume "\<exists>u. t' = Some u \<and> st' = st \<and> is_export_task u \<and>
              (if reply_fits (tasks st ! i) r then export_stage u < export_stage (tasks st ! i)
               else u = tasks st ! i)"
      then obtain u where "t' = Some u" "st' = st" "is_export_task u" by blast
      with fst_eq upd [of u] inv True show ?thesis
        by (simp add: export_inv_def export_count_def)
    qed
  next
    case False
    from resume_pick_cases [OF False eq]
    have st': "st' = st\<lparr>logo := logo st'\<rparr>" and u: "\<And>u. t' = Some u \<Longrightarrow> \<not> is_export_task u"
      by auto
    have pr: "processing st' = processing st" by (subst st') simp
    show ?thesis
    proof (cases t')
      case None
      with fst_eq pr rm inv False show ?thesis
        by (simp add: export_inv_def export_count_def)
    next
      case (Some u)
      with fst_eq pr upd [of u] u inv False show ?thesis
        by (simp add: export_inv_def export_count_def)
    qed
  qed
qed

lemma step_export_inv:
  assumes inv: "export_inv st" and en: "enabled p st e"
  shows "export_inv (fst (step p e st))"
proof (cases "sync_event e")
  case True
  with inv show ?thesis by (simp add: export_inv_def export_count_def sync_step_frame)
next
  case False
  then consider "e = PressPickLogo" | "e = PressSave" | "e = PressShare" | i r where "e = Resume i r"
    by (cases e) auto
  then show ?thesis
  proof cases
    case 1
    with inv show ?thesis by (simp add: export_inv_def handlePickLogo_def)
  next
    case 2
    with inv en show ?thesis
      by (auto simp: export_inv_def handleSave_def actions_disabled_def)
  next
    case 3
    with inv en show ?thesis
      by (auto simp: export_inv_def handleShare_def actions_disabled_def)
  next
    case (4 i r)
    with inv en resume_export_inv show ?thesis by simp
  qed
qed

lemma reachable_export_inv: "reachable p st \<Longrightarrow> export_inv st"
proof (induction rule: reachable.induct)
  case mount
  show ?case by (simp add: export_inv_def export_count_def mount_def)
next
  case (step st e)
  from step.IH step.hyps(2) show ?case by (rule step_export_inv)
qed

subsection \<open>Progress of an export, the fixed form, the animation\<close>

lemma resume_export_rank:
  assumes i: "i < length (tasks st)" and ex: "is_export_task (tasks st ! i)"
    and fits: "reply_fits (tasks st ! i) r"
  shows "export_rank (fst (resume p i r st)) < export_rank st"
proof -
  obtain t' st' effs where eq: "resume_task p (tasks st ! i) r st = (t', st', effs)"
    by (cases "resume_task p (tasks st ! i) r st") auto
  note fst_eq = resume_fst [OF i eq]
  have pos: "0 < export_stage (tasks st ! i)" using ex by (simp add: export_stage_pos)
  from resume_export_cases [OF ex eq] show ?thesis
  proof
    assume "t' = None \<and> st' = finish_export st"
    with fst_eq sum_remove_nth [OF i, of export_stage] pos show ?thesis
      by (simp add: export_rank_def)
  next
    assume "\<exists>u. t' = Some u \<and> st' = st \<and> is_export_task u \<and>
              (if reply_fits (tasks st ! i) r then export_stage u < export_stage (tasks st ! i)
               else u = tasks st ! i)"
    with fits obtain u where "t' = Some u" "export_stage u < export_stage (tasks st ! i)" by auto
    with fst_eq sum_list_update [OF i, of export_stage u] show ?thesis
      by (simp add: export_rank_def)
  qed
qed

lemma resume_fixed_form:
  assumes ff: "fixed_form p st"
  shows "fixed_form p (fst (resume p i r st))"
proof (cases "i < length (tasks st)")
  case i: True
  obtain t' st' effs where eq: "resume_task p (tasks st ! i) r st = (t', st', effs)"
    by (cases "resume_task p (tasks st ! i) r st") auto
  have ex: "is_export_task (tasks st ! i)" using ff i by (simp add: fixed_form_def list_all_length)
  from resume_export_cases [OF ex eq] show ?thesis
  proof
    assume "t' = None \<and> st' = finish_export st"
    with resume_fst [OF i eq] ff set_remove_nth_subset [of i "tasks st"] show ?thesis
      by (auto simp: fixed_form_def finish_export_def list_all_iff)
  next
    assume "\<exists>u. t' = Some u \<and> st' = st \<and> is_export_task u \<and>
              (if reply_fits (tasks st ! i) r then export_stage u < export_stage (tasks st ! i)
               else u = tasks st ! i)"
    then obtain u where "t' = Some u" "st' = st" "is_export_task u" by blast
    with resume_fst [OF i eq] ff set_update_subset_insert [of "tasks st" i u] show ?thesis
      by (auto simp: fixed_form_def list_all_iff)
  qed
qed (simp add: ff)

lemma step_fixed_form:
  assumes "\<not> allowCustomization p" and "fixed_form p st" and "enabled p st e"
  shows "fixed_form p (fst (step p e st))"
  using assms
  by (cases e) (auto simp: fixed_form_def handler_defs modal_defs animated_timing_start_eq
      resume_fixed_form [unfolded fixed_form_def] split: option.splits)

lemma reachable_fixed_form:
  "reachable p st \<Longrightarrow> \<not> allowCustomization p \<Longrightarrow> fixed_form p st"
proof (induction rule: reachable.induct)
  case mount
  show ?case by (simp add: fixed_form_def mount_def)
next
  case (step st e)
  then show ?case by (simp add: step_fixed_form)
qed

lemma resume_fadeAnim: "fadeAnim (fst (resume p i r st)) = fadeAnim st"
proof (cases "i < length (tasks st)")
  case True
  obtain t' st' effs where eq: "resume_task p (tasks st ! i) r st = (t', st', effs)"
    by (cases "resume_task p (tasks st ! i) r st") auto
  with resume_fst [OF True eq] resume_task_fields(1) [OF eq] show ?thesis by simp
qed simp

lemma rank_le_count:
  "sum_list (map export_stage ts) \<le> 3 * length (filter is_export_task ts)"
proof (induction ts)
  case Nil
  then show ?case by simp
next
  case (Cons t ts)
  have "export_stage t \<le> (if is_export_task t then 3 else 0)" by (cases t) simp_all
  with Cons show ?case by (simp split: if_splits)
qed

lemma rank_zero_iff: "sum_list (map export_stage ts) = 0 \<longleftrightarrow> length (filter is_export_task ts) = 0"
  by (induction ts) (auto simp: export_stage_pos)

text \<open>A rejection ends any task: replying \<open>Rejected\<close> to the first task drains the queue.\<close>

lemma resume_task_Rejected:
  "\<exists>st' effs. resume_task p t Rejected st = (None, st', effs)"
  by (cases t) simp_all

lemma resume_Rejected_tasks:
  assumes "tasks st = t # ts"
  shows "tasks (fst (step p (Resume 0 Rejected) st)) = ts"
proof -
  obtain st' effs where eq: "resume_task p t Rejected st = (None, st', effs)"
    using resume_task_Rejected by blast
  from resume_fst [of 0 st p Rejected None st' effs] eq assms show ?thesis by simp
qed

lemma drain_tasks:
  "enabled_run p st (replicate (length (tasks st)) (Resume 0 Rejected)) \<and>
   tasks (fst (run p st (replicate (length (tasks st)) (Resume 0 Rejected)))) = []"
proof (induction "length (tasks st)" arbitrary: st)
  case 0
  then show ?case by simp
next
  case (Suc n)
  then obtain t ts where ts: "tasks st = t # ts" by (cases "tasks st") auto
  have len: "length (tasks (fst (step p (Resume 0 Rejected) st))) = n"
    using Suc.hyps(2) ts resume_Rejected_tasks [OF ts] by simp
  have n: "length ts = n" using Suc.hyps(2) ts by simp
  from Suc.hyps(1) [OF len [symmetric]] len n ts show ?case by simp
qed

text \<open>A picker continuation leaves \<open>processing\<close> alone.\<close>

lemma resume_pick_processing:
  assumes "i < length (tasks st)" and "\<not> is_export_task (tasks st ! i)"
  shows "processing (fst (resume p i r st)) = processing st"
proof -
  obtain t' st' effs where eq: "resume_task p (tasks st ! i) r st = (t', st', effs)"
    by (cases "resume_task p (tasks st ! i) r st") auto
  from resume_pick_cases [OF assms(2) eq] have st': "st' = st\<lparr>logo := logo st'\<rparr>" by blast
  have "processing st' = processing st" by (subst st') simp
  with resume_fst [OF assms(1) eq] show ?thesis by simp
qed

subsection \<open>Properties\<close>

text \<open>
  C3: in every reachable state at most one export (save or share) is in flight,
  and \<open>processing\<close> is set exactly while one is: it is set for the whole
  duration of an export and cleared on every exit path.
\<close>

theorem reachable_processing_iff_export:
  assumes "reachable p st"
  shows "export_count st \<le> 1 \<and> (processing st \<longleftrightarrow> export_count st = 1)"
  using reachable_export_inv [OF assms] by (simp add: export_inv_def)

theorem reachable_processing_iff_export_witness:
  "reachable app_qr_props (fst (run app_qr_props (mount app_qr_props) [PressMainButton, PressSave])) \<and>
   processing (fst (run app_qr_props (mount app_qr_props) [PressMainButton, PressSave])) \<and>
   export_count (fst (run app_qr_props (mount app_qr_props) [PressMainButton, PressSave])) = 1"
proof -
  let ?st = "fst (run app_qr_props (mount app_qr_props) [PressMainButton, PressSave])"
  have r: "reachable app_qr_props ?st"
    by (rule reachable_run [OF reachable.mount]) (simp add: screen_eval)
  have "processing ?st" by (simp add: screen_eval)
  with r reachable_processing_iff_export [OF r] show ?thesis by simp
qed

text \<open>
  C10: an export finishes after at most three replies: in a reachable state
  \<open>processing\<close> is set exactly when the number of promises the export still
  waits for is positive, that number is at most three, and every reply that
  settles one of them makes it smaller.
\<close>

theorem export_resume_decreases_rank:
  assumes "reachable p st"
  shows "(processing st \<longleftrightarrow> 0 < export_rank st) \<and> export_rank st \<le> 3 \<and>
         (\<forall>i r. i < length (tasks st) \<and> is_export_task (tasks st ! i) \<and> reply_fits (tasks st ! i) r \<longrightarrow>
                export_rank (fst (step p (Resume i r) st)) < export_rank st)"
proof -
  have inv: "export_inv st" by (rule reachable_export_inv [OF assms])
  have "export_rank st \<le> 3 * export_count st"
    using rank_le_count by (simp add: export_rank_def export_count_def)
  moreover have "export_rank st = 0 \<longleftrightarrow> export_count st = 0"
    using rank_zero_iff by (simp add: export_rank_def export_count_def)
  moreover have "\<And>i r. i < length (tasks st) \<Longrightarrow> is_export_task (tasks st ! i) \<Longrightarrow>
      reply_fits (tasks st ! i) r \<Longrightarrow> export_rank (fst (step p (Resume i r) st)) < export_rank st"
    by (simp add: resume_export_rank)
  ultimately show ?thesis using inv by (auto simp: export_inv_def)
qed

theorem export_resume_decreases_rank_witness:
  "reachable app_qr_props (fst (run app_qr_props (mount app_qr_props) [PressMainButton, PressShare])) \<and>
   export_rank (fst (step app_qr_props (Resume 0 (CapturedUri ''file:///qr.png''))
     (fst (run app_qr_props (mount app_qr_props) [PressMainButton, PressShare])))) <
   export_rank (fst (run app_qr_props (mount app_qr_props) [PressMainButton, PressShare]))"
proof -
  let ?st = "fst (run app_qr_props (mount app_qr_props) [PressMainButton, PressShare])"
  have r: "reachable app_qr_props ?st"
    by (rule reachable_run [OF reachable.mount]) (simp add: screen_eval)
  have t: "0 < length (tasks ?st) \<and> is_export_task (tasks ?st ! 0) \<and>
           reply_fits (tasks ?st ! 0) (CapturedUri ''file:///qr.png'')"
    by (simp add: screen_eval)
  have "export_rank (fst (step app_qr_props (Resume 0 (CapturedUri ''file:///qr.png'')) ?st)) <
        export_rank ?st"
    using export_resume_decreases_rank [OF r] t by blast
  with r show ?thesis by blast
qed

text \<open>
  C13: with \<open>allowCustomization\<close> off the content, both colours, the logo
  switch and the logo keep the values of the props in every reachable state.
\<close>

theorem reachable_without_customization_fixed:
  assumes "reachable p st" and "\<not> allowCustomization p"
  shows "content st = defaultContent p \<and> qrColor st = defaultQRColor p \<and>
         bgColor st = defaultBGColor p \<and> includeLogo st = js_truthy_opt (defaultLogo p) \<and>
         logo st = defaultLogo p"
  using reachable_fixed_form [OF assms] by (simp add: fixed_form_def)

theorem reachable_without_customization_fixed_witness:
  "reachable (app_qr_props\<lparr>allowCustomization := False\<rparr>)
     (fst (run (app_qr_props\<lparr>allowCustomization := False\<rparr>)
        (mount (app_qr_props\<lparr>allowCustomization := False\<rparr>)) [PressMainButton, PressSave])) \<and>
   \<not> allowCustomization (app_qr_props\<lparr>allowCustomization := False\<rparr>) \<and>
   qrColor (fst (run (app_qr_props\<lparr>allowCustomization := False\<rparr>)
        (mount (app_qr_props\<lparr>allowCustomization := False\<rparr>)) [PressMainButton, PressSave])) = ''#000000''"
proof -
  let ?p = "app_qr_props\<lparr>allowCustomization := False\<rparr>"
  let ?st = "fst (run ?p (mount ?p) [PressMainButton, PressSave])"
  have r: "reachable ?p ?st"
    by (rule reachable_run [OF reachable.mount]) (simp add: screen_eval)
  have a: "\<not> allowCustomization ?p" by simp
  from reachable_without_customization_fixed [OF r a] r a show ?thesis
    by (simp add: app_qr_props_def)
qed

text \<open>
  C26: without \<open>allowCustomization\<close> at most one promise is pending in
  every reachable state: the only handlers left are the two exports, and the
  disabled buttons keep a second one from starting.
\<close>

theorem reachable_without_customization_one_pending:
  assumes "reachable p st" and "\<not> allowCustomization p"
  shows "length (tasks st) \<le> 1"
proof -
  have "list_all is_export_task (tasks st)"
    using reachable_fixed_form [OF assms] by (simp add: fixed_form_def)
  then have "filter is_export_task (tasks st) = tasks st" by (simp add: list_all_iff)
  with reachable_export_inv [OF assms(1)] show ?thesis
    by (simp add: export_inv_def export_count_def)
qed

theorem reachable_without_customization_one_pending_witness:
  "reachable (app_qr_props\<lparr>allowCustomization := False\<rparr>)
     (fst (run (app_qr_props\<lparr>allowCustomization := False\<rparr>)
        (mount (app_qr_props\<lparr>allowCustomization := False\<rparr>)) [PressMainButton, PressShare])) \<and>
   \<not> allowCustomization (app_qr_props\<lparr>allowCustomization := False\<rparr>) \<and>
   length (tasks (fst (run (app_qr_props\<lparr>allowCustomization := False\<rparr>)
        (mount (app_qr_props\<lparr>allowCustomization := False\<rparr>)) [PressMainButton, PressShare]))) \<le> 1"
proof -
  let ?p = "app_qr_props\<lparr>allowCustomization := False\<rparr>"
  let ?st = "fst (run ?p (mount ?p) [PressMainButton, PressShare])"
  have r: "reachable ?p ?st"
    by (rule reachable_run [OF reachable.mount]) (simp add: screen_eval)
  have a: "\<not> allowCustomization ?p" by simp
  from reachable_without_customization_one_pending [OF r a] r a show ?thesis by simp
qed

text \<open>
  C21: in every reachable state a running fade animation heads to opacity 1
  exactly when it is the fade-in (no callback) and to 0 when it is the
  fade-out (hide callback).
\<close>

theorem reachable_anim_consistent: "reachable p st \<Longrightarrow> anim_consistent (fadeAnim st)"
proof (induction rule: reachable.induct)
  case mount
  show ?case by (simp add: mount_def)
next
  case (step st e)
  then show ?case
    by (cases e) (simp_all add: anim_consistent_openModal anim_consistent_closeModal
        anim_consistent_fade_end resume_fadeAnim handler_defs del: anim_consistent.simps)
qed

theorem reachable_anim_consistent_witness:
  "reachable app_qr_props (fst (run app_qr_props (mount app_qr_props) [PressMainButton])) \<and>
   anim_consistent (fadeAnim (fst (run app_qr_props (mount app_qr_props) [PressMainButton])))"
proof -
  have r: "reachable app_qr_props (fst (run app_qr_props (mount app_qr_props) [PressMainButton]))"
    by (rule reachable_run [OF reachable.mount]) (simp add: screen_eval)
  with reachable_anim_consistent [OF r] show ?thesis by simp
qed

text \<open>
  C29: only an export's own continuation clears \<open>processing\<close>: an enabled
  event that takes a state from \<open>processing\<close> to not \<open>processing\<close> is the
  settlement of a pending export promise. So an export whose promise never settles
  (no timeout is applied) keeps the action buttons disabled for good.
\<close>

theorem only_export_continuation_clears_processing:
  assumes "enabled p st e" and "processing st" and "\<not> processing (fst (step p e st))"
  shows "\<exists>i r. e = Resume i r \<and> i < length (tasks st) \<and> is_export_task (tasks st ! i)"
proof (cases "sync_event e")
  case True
  with assms(2,3) show ?thesis by (simp add: sync_step_frame)
next
  case False
  then consider "e = PressPickLogo" | "e = PressSave" | "e = PressShare" | i r where "e = Resume i r"
    by (cases e) auto
  then show ?thesis
  proof cases
    case (4 i r)
    have i: "i < length (tasks st)"
    proof (rule ccontr)
      assume "\<not> i < length (tasks st)"
      with 4 assms(2,3) show False by simp
    qed
    moreover have "is_export_task (tasks st ! i)"
    proof (rule ccontr)
      assume "\<not> is_export_task (tasks st ! i)"
      with 4 assms(2,3) resume_pick_processing [OF i, of p r] show False by simp
    qed
    ultimately show ?thesis using 4 by blast
  next
    case 1
    with assms(2,3) show ?thesis by (simp add: handlePickLogo_def)
  next
    case 2
    with assms(1,2) show ?thesis by (simp add: actions_disabled_def)
  next
    case 3
    with assms(1,2) show ?thesis by (simp add: actions_disabled_def)
  qed
qed

theorem only_export_continuation_clears_processing_witness:
  "enabled app_qr_props (fst (run app_qr_props (mount app_qr_props) [PressMainButton, PressSave]))
     (Resume 0 (PermissionStatus ''denied'')) \<and>
   processing (fst (run app_qr_props (mount app_qr_props) [PressMainButton, PressSave])) \<and>
   \<not> processing (fst (step app_qr_props (Resume 0 (PermissionStatus ''denied''))
     (fst (run app_qr_props (mount app_qr_props) [PressMainButton, PressSave])))) \<and>
   is_export_task (tasks (fst (run app_qr_props (mount app_qr_props) [PressMainButton, PressSave])) ! 0)"
proof -
  let ?st = "fst (run app_qr_props (mount app_qr_props) [PressMainButton, PressSave])"
  let ?e = "Resume 0 (PermissionStatus ''denied'')"
  have e: "enabled app_qr_props ?st ?e" and p: "processing ?st"
    and n: "\<not> processing (fst (step app_qr_props ?e ?st))" by (simp_all add: screen_eval)
  from only_export_continuation_clears_processing [OF e p n] e p n show ?thesis by auto
qed
end
