(* ===== verification/Export_Spec.thy ===== *)
theory Export_Spec
  imports Screen_Invariants
begin

text \<open>
  The export workflow as the specification describes it (sections 4.4 and 9 of
  the spec): an explicit state machine \<open>idle \<rightarrow> requesting permission \<rightarrow>
  capturing \<rightarrow> writing \<rightarrow> idle\<close> for save, \<open>idle \<rightarrow> capturing \<rightarrow> sharing
  \<rightarrow> idle\<close> for share, with a failure edge back to idle from every stage. The
  screen refines it: the abstraction \<open>export_phase_of\<close> reads the phase off the
  export continuation in flight, and every enabled event of a reachable state
  either leaves the phase unchanged or makes one step of the machine.
\<close>

subsection \<open>The abstract machine\<close>

datatype export_kind = SaveExport | ShareExport

datatype export_phase =
    ExportIdle
  | RequestingPermission
  | Capturing export_kind
  | Writing
  | Sharing

inductive export_spec_step :: "export_phase \<Rightarrow> export_phase \<Rightarrow> bool" where
  start_save: "export_spec_step ExportIdle RequestingPermission"
| start_share: "export_spec_step ExportIdle (Capturing ShareExport)"
| permission_granted: "export_spec_step RequestingPermission (Capturing SaveExport)"
| permission_refused: "export_spec_step RequestingPermission ExportIdle"
| captured_for_save: "export_spec_step (Capturing SaveExport) Writing"
| captured_for_share: "export_spec_step (Capturing ShareExport) Sharing"
| capture_failed: "export_spec_step (Capturing k) ExportIdle"
| written: "export_spec_step Writing ExportIdle"
| shared: "export_spec_step Sharing ExportIdle"

inductive_simps export_spec_step_from_idle: "export_spec_step ExportIdle q"

subsection \<open>The abstraction\<close>

fun task_phase :: "task \<Rightarrow> export_phase" where
  "task_phase SaveAwaitPermission = RequestingPermission"
| "task_phase SaveAwaitCapture = Capturing SaveExport"
| "task_phase SaveAwaitWrite = Writing"
| "task_phase ShareAwaitCapture = Capturing ShareExport"
| "task_phase ShareAwaitShare = Sharing"
| "task_phase PickAwaitPermission = ExportIdle"
| "task_phase PickAwaitResult = ExportIdle"

definition export_phase_of :: "screen \<Rightarrow> export_phase" where
  "export_phase_of st =
     (case filter is_export_task (tasks st) of [] \<Rightarrow> ExportIdle | t # _ \<Rightarrow> task_phase t)"

subsection \<open>Lemmas\<close>

lemma task_phase_idle_iff: "task_phase t = ExportIdle \<longleftrightarrow> \<not> is_export_task t"
  by (cases t) simp_all

lemma task_phase_to_idle: "is_export_task t \<Longrightarrow> export_spec_step (task_phase t) ExportIdle"
  by (cases t) (auto intro: export_spec_step.intros)

text \<open>A continuation that waits again on an export moves one step of the machine or none.\<close>

lemma resume_export_phase:
  "is_export_task t \<Longrightarrow> resume_task p t r st = (Some u, st', effs) \<Longrightarrow>
   u = t \<or> export_spec_step (task_phase t) (task_phase u)"
  by (cases t; cases r) (auto split: if_splits intro: export_spec_step.intros)

text \<open>Where the export invariant holds, the only export task is the one at hand.\<close>

lemma export_filter_single:
  assumes "export_inv st" and "i < length (tasks st)" and "is_export_task (tasks st ! i)"
  shows "filter is_export_task (tasks st) = [tasks st ! i]"
proof -
  have "tasks st ! i \<in> set (filter is_export_task (tasks st))"
    using assms(2,3) by (simp add: nth_mem)
  moreover have "length (filter is_export_task (tasks st)) \<le> 1"
    using assms(1) by (simp add: export_inv_def export_count_def)
  ultimately show ?thesis
    by (cases "filter is_export_task (tasks st)") (auto simp: le_Suc_eq)
qed

lemma export_phase_of_processing:
  "export_inv st \<Longrightarrow> processing st \<longleftrightarrow> export_phase_of st \<noteq> ExportIdle"
  by (auto simp: export_inv_def export_count_def export_phase_of_def task_phase_idle_iff
      split: list.splits dest: filter_Cons_head)

lemma export_phase_idle_iff:
  "export_phase_of st = ExportIdle \<longleftrightarrow> filter is_export_task (tasks st) = []"
  by (auto simp: export_phase_of_def task_phase_idle_iff split: list.splits dest: filter_Cons_head)

lemma resume_export_phase_step:
  assumes inv: "export_inv st"
  shows "export_phase_of (fst (resume p i r st)) = export_phase_of st \<or>
         export_spec_step (export_phase_of st) (export_phase_of (fst (resume p i r st)))"
proof (cases "i < length (tasks st)")
  case i: True
  obtain t' st' effs where eq: "resume_task p (tasks st ! i) r st = (t', st', effs)"
    by (cases "resume_task p (tasks st ! i) r st") auto
  note fst_eq = resume_fst [OF i eq]
  show ?thesis
  proof (cases "is_export_task (tasks st ! i)")
    case ex: True
    note single = export_filter_single [OF inv i ex]
    from resume_export_cases [OF ex eq] show ?thesis
    proof
      assume "t' = None \<and> st' = finish_export st"
      with fst_eq filter_remove_nth_single [OF i single ex] task_phase_to_idle [OF ex] single
      show ?thesis by (simp add: export_phase_of_def)
    next
      assume "\<exists>u. t' = Some u \<and> st' = st \<and> is_export_task u \<and>
              (if reply_fits (tasks st ! i) r then export_stage u < export_stage (tasks st ! i)
               else u = tasks st ! i)"
      then obtain u where u: "t' = Some u" "is_export_task u" by blast
      with eq resume_export_phase [OF ex] have "u = tasks st ! i \<or>
          export_spec_step (task_phase (tasks st ! i)) (task_phase u)" by blast
      with fst_eq u filter_update_single [OF i single ex u(2)] single show ?thesis
        by (auto simp: export_phase_of_def)
    qed
  next
    case pk: False
    from resume_pick_cases [OF pk eq] have u: "\<And>u. t' = Some u \<Longrightarrow> \<not> is_export_task u" by auto
    have "tasks (fst (resume p i r st)) = remove_nth i (tasks st) \<or>
          (\<exists>u. tasks (fst (resume p i r st)) = (tasks st)[i := u] \<and> \<not> is_export_task u)"
      using fst_eq u by (cases t') auto
    with filter_remove_nth_skip [OF i, of is_export_task] filter_update_skip [OF i, of is_export_task] pk
    show ?thesis by (auto simp: export_phase_of_def)
  qed
qed simp

lemma step_export_phase:
  assumes inv: "export_inv st" and en: "enabled p st e"
  shows "export_phase_of (fst (step p e st)) = export_phase_of st \<or>
         export_spec_step (export_phase_of st) (export_phase_of (fst (step p e st)))"
proof (cases "sync_event e")
  case True
  then show ?thesis by (simp add: export_phase_of_def sync_step_frame)
next
  case False
  then consider "e = PressPickLogo" | "e = PressSave" | "e = PressShare" | i r where "e = Resume i r"
    by (cases e) auto
  then show ?thesis
  proof cases
    case 1
    then show ?thesis by (simp add: export_phase_of_def handlePickLogo_def)
  next
    case 2
    with en have v: "isFormValid st" and "\<not> processing st" by (simp_all add: actions_disabled_def)
    then have "filter is_export_task (tasks st) = []"
      using export_phase_of_processing [OF inv] export_phase_idle_iff by blast
    with 2 v show ?thesis
      by (simp add: export_phase_of_def handleSave_def export_spec_step.intros)
  next
    case 3
    with en have v: "isFormValid st" and "\<not> processing st" by (simp_all add: actions_disabled_def)
    then have "filter is_export_task (tasks st) = []"
      using export_phase_of_processing [OF inv] export_phase_idle_iff by blast
    with 3 v show ?thesis
      by (simp add: export_phase_of_def handleShare_def export_spec_step.intros)
  next
    case (4 i r)
    with resume_export_phase_step [OF inv] show ?thesis by simp
  qed
qed

subsection \<open>Properties\<close>

text \<open>
  C23: the screen refines the export machine: from a reachable state every
  enabled event leaves the abstract export phase unchanged or makes one step of
  the machine of the specification.
\<close>

theorem export_phase_refines_spec:
  assumes "reachable p st" and "enabled p st e"
  shows "export_phase_of (fst (step p e st)) = export_phase_of st \<or>
         export_spec_step (export_phase_of st) (export_phase_of (fst (step p e st)))"
  using step_export_phase [OF reachable_export_inv [OF assms(1)] assms(2)] .

theorem export_phase_refines_spec_witness:
  "reachable app_qr_props (openModal (mount app_qr_props)) \<and>
   enabled app_qr_props (openModal (mount app_qr_props)) PressSave \<and>
   (export_phase_of (fst (step app_qr_props PressSave (openModal (mount app_qr_props)))) =
      export_phase_of (openModal (mount app_qr_props)) \<or>
    export_spec_step (export_phase_of (openModal (mount app_qr_props)))
      (export_phase_of (fst (step app_qr_props PressSave (openModal (mount app_qr_props))))))"
proof -
  have r: "reachable app_qr_props (openModal (mount app_qr_props))"
    using reachable.step [OF reachable.mount, of app_qr_props PressMainButton]
    by (simp add: screen_eval)
  have e: "enabled app_qr_props (openModal (mount app_qr_props)) PressSave"
    by (simp add: screen_eval)
  from r e export_phase_refines_spec [OF r e] show ?thesis by simp
qed

end
