(* ===== verification/Styles.thy ===== *)
theory Styles
  imports Screen_State
begin

text \<open>
  The styles of the rendered tree: the component's \<open>StyleSheet.create\<close>
  object (lines 397--490, with the spread of \<open>commonFlex\<close>), the
  \<open>style\<close> props of the JSX, which are arrays mixing sheet entries, inline
  object literals and the caller's \<open>mainButtonStyle\<close>, and React Native's
  flattening of a style array: entries apply in order, a later key overrides an
  earlier one, and \<open>undefined\<close> entries are skipped. Also the styles of the
  app shell of \<open>App.js\<close> (lines 9--11 and 26--33). Layout itself (how the
  styles place the views) is not modelled.
\<close>

subsection \<open>Style values and objects\<close>

datatype style_value = SNum nat | SStr js_string

type_synonym style_obj = "(js_string \<times> style_value) list"

text \<open>The value of a key: the last entry of that key wins (object spread and literals).\<close>

definition style_get :: "style_obj \<Rightarrow> js_string \<Rightarrow> style_value option" where
  "style_get s k = map_of (rev s) k"

text \<open>\<open>StyleSheet.flatten\<close> of a style array; \<open>None\<close> is an \<open>undefined\<close> entry.\<close>

definition flatten_style :: "style_obj option list \<Rightarrow> style_obj" where
  "flatten_style es = concat (map (\<lambda>e. case e of None \<Rightarrow> [] | Some s \<Rightarrow> s) es)"

text \<open>A caller's style object literal (a prop of the component), numbers and strings kept.\<close>

fun style_of_entries :: "(string \<times> jsval) list \<Rightarrow> style_obj" where
  "style_of_entries [] = []"
| "style_of_entries ((k, JNum n) # es) = (k, SNum n) # style_of_entries es"
| "style_of_entries ((k, JStr s) # es) = (k, SStr s) # style_of_entries es"
| "style_of_entries (e # es) = style_of_entries es"

definition caller_style :: "js_object \<Rightarrow> string \<Rightarrow> style_obj option" where
  "caller_style obj k = (case prop_get obj k of JObject es \<Rightarrow> Some (style_of_entries es) | _ \<Rightarrow> None)"

subsection \<open>The component's stylesheet\<close>

definition commonFlex :: style_obj where
  "commonFlex = [(''flex'', SNum 1)]"

definition styles :: "(js_string \<times> style_obj) list" where
  "styles =
     [(''container'', [(''alignItems'', SStr ''center''), (''justifyContent'', SStr ''center'')]),
      (''mainButton'', [(''marginVertical'', SNum 10)]),
      (''modalOverlay'', [(''flex'', SNum 1), (''backgroundColor'', SStr ''rgba(0,0,0,0.4)''),
                          (''justifyContent'', SStr ''center'')]),
      (''modalContainer'', [(''borderRadius'', SNum 12), (''marginHorizontal'', SNum 20),
                            (''paddingHorizontal'', SNum 20), (''backgroundColor'', SStr ''#fff'')]),
      (''closeIcon'', [(''top'', SNum 10), (''right'', SNum 10), (''zIndex'', SNum 10),
                       (''position'', SStr ''absolute'')]),
      (''scrollContainer'', [(''paddingTop'', SNum 55), (''paddingBottom'', SNum 10),
                             (''alignItems'', SStr ''center'')]),
      (''row'', [(''marginVertical'', SNum 10), (''flexDirection'', SStr ''row''),
                 (''alignItems'', SStr ''center'')]),
      (''qrRow'', [(''justifyContent'', SStr ''center'')]),
      (''input'', commonFlex),
      (''colorCircle'', [(''width'', SNum 40), (''height'', SNum 40), (''borderWidth'', SNum 1),
                         (''marginRight'', SNum 10), (''borderRadius'', SNum 20),
                         (''borderColor'', SStr ''#ccc'')]),
      (''inputColor'', commonFlex),
      (''flex1'', commonFlex),
      (''actionButton'', commonFlex @ [(''marginHorizontal'', SNum 5)]),
      (''colorPickerModalOverlay'', [(''flex'', SNum 1), (''padding'', SNum 20),
                                     (''alignItems'', SStr ''center''),
                                     (''justifyContent'', SStr ''center''),
                                     (''backgroundColor'', SStr ''rgba(0,0,0,0.4)'')]),
      (''colorPickerModal'', [(''height'', SNum 500), (''padding'', SNum 20), (''width'', SStr ''90%''),
                              (''borderRadius'', SNum 12), (''position'', SStr ''relative''),
                              (''backgroundColor'', SStr ''#fff'')]),
      (''modalCloseIcon'', [(''right'', SNum 0), (''position'', SStr ''absolute'')]),
      (''picker'', commonFlex @ [(''width'', SStr ''100%''), (''marginTop'', SNum 30)]),
      (''hueSlider'', [(''marginTop'', SNum 20)]),
      (''colorModalActions'', [(''marginTop'', SNum 20), (''flexDirection'', SStr ''row''),
                               (''justifyContent'', SStr ''flex-end'')])]"

text \<open>\<open>styles.k\<close>: \<open>undefined\<close> for a key the sheet does not have.\<close>

definition sheet :: "js_string \<Rightarrow> style_obj option" where
  "sheet k = map_of styles k"

subsection \<open>The style props of the rendered tree\<close>

text \<open>The styled controls of the rendered tree (lines 172--394); \<open>colour_field\<close> tells the
  two colour rows and the two picker modals apart.\<close>

datatype colour_field = QRField | BGField

datatype control =
    MainButton
  | CloseIcon
  | ContentInput
  | ColorCircle colour_field
  | ColorInput colour_field
  | LogoSwitch
  | PickLogoButton
  | SaveButton
  | ShareButton
  | PickerCloseIcon colour_field
  | PickerPanel colour_field
  | PickerCancelButton colour_field
  | PickerAcceptButton colour_field

text \<open>
  The \<open>style\<close> prop of each control (lines 176, 199, 227, 236, 242, 256, 262,
  276, 284, 297, 306, 331, 336, 346 and their background-picker twins);
  \<open>ms\<close> is the caller's \<open>mainButtonStyle\<close>.
\<close>

fun control_style :: "style_obj option \<Rightarrow> control \<Rightarrow> screen \<Rightarrow> style_obj option list" where
  "control_style ms MainButton st = [sheet ''mainButton'', ms]"
| "control_style ms CloseIcon st = [sheet ''closeIcon'']"
| "control_style ms ContentInput st = [sheet ''input'']"
| "control_style ms (ColorCircle QRField) st =
     [sheet ''colorCircle'', Some [(''backgroundColor'', SStr (qrColor st))]]"
| "control_style ms (ColorCircle BGField) st =
     [sheet ''colorCircle'', Some [(''backgroundColor'', SStr (bgColor st))]]"
| "control_style ms (ColorInput f) st = [sheet ''inputColor'']"
| "control_style ms LogoSwitch st = [Some [(''marginRight'', SNum 10)]]"
| "control_style ms PickLogoButton st = [sheet ''flex1'']"
| "control_style ms SaveButton st = [sheet ''actionButton'', Some [(''backgroundColor'', SStr ''#34C759'')]]"
| "control_style ms ShareButton st = [sheet ''actionButton'', Some [(''backgroundColor'', SStr ''#6200EE'')]]"
| "control_style ms (PickerCloseIcon f) st = [sheet ''modalCloseIcon'']"
| "control_style ms (PickerPanel f) st = [sheet ''picker'']"
| "control_style ms (PickerCancelButton f) st = []"
| "control_style ms (PickerAcceptButton f) st = [Some [(''marginLeft'', SNum 10)]]"

subsection \<open>The app shell\<close>

definition app_styles :: "(js_string \<times> style_obj) list" where
  "app_styles =
     [(''container'', [(''flex'', SNum 1), (''justifyContent'', SStr ''center''),
                       (''backgroundColor'', SStr ''#eef2f5'')])]"

text \<open>
  The element tree of \<open>App\<close> (lines 7--23): \<open>GestureHandlerRootView\<close>
  (inline \<open>{ flex: 1 }\<close>) around \<open>PaperProvider\<close> around
  \<open>SafeAreaView\<close> (\<open>styles.container\<close>) around the component.
\<close>

datatype app_element =
    HostView js_string "style_obj option list" "app_element list"
  | QRGeneratorElement js_object

definition app_tree :: app_element where
  "app_tree =
     HostView ''GestureHandlerRootView'' [Some [(''flex'', SNum 1)]]
       [HostView ''PaperProvider'' []
         [HostView ''SafeAreaView'' [map_of app_styles ''container'']
           [QRGeneratorElement app_props]]]"

subsection \<open>Lemmas\<close>

text \<open>Flattening: the last entry of an array overrides the earlier ones key by key.\<close>

lemma flatten_style_simps [simp]:
  "flatten_style [] = []"
  "flatten_style (None # es) = flatten_style es"
  "flatten_style (Some s # es) = s @ flatten_style es"
  by (simp_all add: flatten_style_def)

lemma style_get_append:
  "style_get (s @ t) k = (case style_get t k of Some v \<Rightarrow> Some v | None \<Rightarrow> style_get s k)"
  by (simp add: style_get_def map_add_def split: option.split)

lemma style_get_Cons:
  "style_get (x # t) k = (case style_get t k of Some v \<Rightarrow> Some v | None \<Rightarrow> style_get [x] k)"
  using style_get_append [of "[x]" t k] by simp

lemmas style_eval = style_get_def sheet_def styles_def commonFlex_def

subsection \<open>Properties\<close>

text \<open>
  C30: the trigger button's style is the sheet's \<open>mainButton\<close> overridden key
  by key by the caller's \<open>mainButtonStyle\<close>; in the app of \<open>App.js\<close> the
  button is purple (\<open>#6200EE\<close>) with the sheet's vertical margin and a white
  label, inside a root view that fills the screen and a safe-area view with the
  app's background.
\<close>

theorem main_button_style_from_caller:
  "style_get (flatten_style (control_style ms MainButton st)) k =
     (case ms of Some s \<Rightarrow> (case style_get s k of Some v \<Rightarrow> Some v
                                 | None \<Rightarrow> style_get [(''marginVertical'', SNum 10)] k)
      | None \<Rightarrow> style_get [(''marginVertical'', SNum 10)] k) \<and>
   style_get (flatten_style (control_style (caller_style app_props ''mainButtonStyle'') MainButton st))
     ''backgroundColor'' = Some (SStr ''#6200EE'') \<and>
   style_get (flatten_style (control_style (caller_style app_props ''mainButtonStyle'') MainButton st))
     ''marginVertical'' = Some (SNum 10) \<and>
   caller_style app_props ''mainButtonLabelStyle'' = Some [(''color'', SStr ''white'')] \<and>
   app_tree = HostView ''GestureHandlerRootView'' [Some [(''flex'', SNum 1)]]
       [HostView ''PaperProvider'' []
         [HostView ''SafeAreaView''
            [Some [(''flex'', SNum 1), (''justifyContent'', SStr ''center''),
                   (''backgroundColor'', SStr ''#eef2f5'')]]
           [QRGeneratorElement app_props]]]"
proof -
  have "style_get (flatten_style (control_style ms MainButton st)) k =
     (case ms of Some s \<Rightarrow> (case style_get s k of Some v \<Rightarrow> Some v
                                 | None \<Rightarrow> style_get [(''marginVertical'', SNum 10)] k)
      | None \<Rightarrow> style_get [(''marginVertical'', SNum 10)] k)"
    by (cases ms) (simp_all add: style_get_Cons sheet_def styles_def)
  moreover have "caller_style app_props ''mainButtonStyle'' = Some [(''backgroundColor'', SStr ''#6200EE'')]"
    and "caller_style app_props ''mainButtonLabelStyle'' = Some [(''color'', SStr ''white'')]"
    by (simp_all add: caller_style_def app_props_def prop_get_def)
  ultimately show ?thesis by (simp add: style_eval app_tree_def app_styles_def)
qed

end
