(* ===== verification/Picker_Spec.thy ===== *)
theory Picker_Spec
  imports Screen_Invariants
begin

text \<open>
  The colour-selection sub-flow as the specification describes it (section 4.3):
  per colour field, a machine with the states \<open>closed\<close> and \<open>open\<close> over the
  committed colour and, while open, a scratch colour; \<open>open\<close> copies the
  committed colour into the scratch value, the picker moves the scratch value,
  \<open>confirm\<close> commits it and \<open>cancel\<close> discards it; while closed the text field
  may overwrite the committed colour (section 4.2). The screen's well-formedness
  (at most one picker shown, and only with \<open>allowCustomization\<close>) is preserved by
  every enabled event, and the screen refines the two machines, moving at most one
  of them per event.
\<close>

subsection \<open>The abstract machine\<close>

datatype picker_state = PickerClosed | PickerOpen js_string

inductive picker_spec_step :: "js_string \<times> picker_state \<Rightarrow> js_string \<times> picker_state \<Rightarrow> bool" where
  open_picker: "picker_spec_step (c, PickerClosed) (c, PickerOpen c)"
| move_picker: "picker_spec_step (c, PickerOpen s) (c, PickerOpen s')"
| confirm_picker: "picker_spec_step (c, PickerOpen s) (s, PickerClosed)"
| cancel_picker: "picker_spec_step (c, PickerOpen s) (c, PickerClosed)"
| set_color: "picker_spec_step (c, PickerClosed) (c', PickerClosed)"

subsection \<open>Well-formedness and the abstraction\<close>

definition pickers_wf :: "qr_props \<Rightarrow> screen \<Rightarrow> bool" where
  "pickers_wf p st \<longleftrightarrow>
     \<not> (showQRColorPicker st \<and> showBGColorPicker st) \<and>
     (showQRColorPicker st \<or> showBGColorPicker st \<longrightarrow> allowCustomization p)"

definition qr_picker_of :: "screen \<Rightarrow> js_string \<times> picker_state" where
  "qr_picker_of st =
     (qrColor st, if showQRColorPicker st then PickerOpen (tempQRColor st) else PickerClosed)"

definition bg_picker_of :: "screen \<Rightarrow> js_string \<times> picker_state" where
  "bg_picker_of st =
     (bgColor st, if showBGColorPicker st then PickerOpen (tempBGColor st) else PickerClosed)"

text \<open>The events whose handlers write the state of one picker's machine.\<close>

fun qr_picker_event :: "event \<Rightarrow> bool" where
  "qr_picker_event (QRColorChangeText text) = True"
| "qr_picker_event PressQRColorCircle = True"
| "qr_picker_event (QRPickerChange hex) = True"
| "qr_picker_event QRPickerCancel = True"
| "qr_picker_event QRPickerConfirm = True"
| "qr_picker_event e = False"

fun bg_picker_event :: "event \<Rightarrow> bool" where
  "bg_picker_event (BGColorChangeText text) = True"
| "bg_picker_event PressBGColorCircle = True"
| "bg_picker_event (BGPickerChange hex) = True"
| "bg_picker_event BGPickerCancel = True"
| "bg_picker_event BGPickerConfirm = True"
| "bg_picker_event e = False"

subsection \<open>Lemmas\<close>

lemma resume_picker_fields:
  "showQRColorPicker (fst (resume p i r st)) = showQRColorPicker st"
  "showBGColorPicker (fst (resume p i r st)) = showBGColorPicker st"
  "qrColor (fst (resume p i r st)) = qrColor st"
  "bgColor (fst (resume p i r st)) = bgColor st"
  "tempQRColor (fst (resume p i r st)) = tempQRColor st"
  "tempBGColor (fst (resume p i r st)) = tempBGColor st"
proof -
  have "showQRColorPicker (fst (resume p i r st)) = showQRColorPicker st \<and>
        showBGColorPicker (fst (resume p i r st)) = showBGColorPicker st \<and>
        qrColor (fst (resume p i r st)) = qrColor st \<and> bgColor (fst (resume p i r st)) = bgColor st \<and>
        tempQRColor (fst (resume p i r st)) = tempQRColor st \<and>
        tempBGColor (fst (resume p i r st)) = tempBGColor st"
  proof (cases "i < length (tasks st)")
    case True
    obtain t' st' effs where eq: "resume_task p (tasks st ! i) r st = (t', st', effs)"
      by (cases "resume_task p (tasks st ! i) r st") auto
    with resume_fst [OF True eq] resume_task_fields [OF eq] show ?thesis by simp
  qed simp
  then show "showQRColorPicker (fst (resume p i r st)) = showQRColorPicker st"
    "showBGColorPicker (fst (resume p i r st)) = showBGColorPicker st"
    "qrColor (fst (resume p i r st)) = qrColor st" "bgColor (fst (resume p i r st)) = bgColor st"
    "tempQRColor (fst (resume p i r st)) = tempQRColor st"
    "tempBGColor (fst (resume p i r st)) = tempBGColor st" by simp_all
qed

lemmas picker_step_defs = handler_defs modal_defs animated_timing_start_eq picker_open_def
  form_reachable_def pickers_wf_def qr_picker_of_def bg_picker_of_def resume_picker_fields

lemma step_qr_picker_frame:
  "\<not> qr_picker_event e \<Longrightarrow> qr_picker_of (fst (step p e st)) = qr_picker_of st"
  by (cases e) (simp_all add: picker_step_defs split: option.splits)

lemma step_bg_picker_frame:
  "\<not> bg_picker_event e \<Longrightarrow> bg_picker_of (fst (step p e st)) = bg_picker_of st"
  by (cases e) (simp_all add: picker_step_defs split: option.splits)

lemma picker_shown_iff:
  "showQRColorPicker st \<longleftrightarrow> snd (qr_picker_of st) \<noteq> PickerClosed"
  "showBGColorPicker st \<longleftrightarrow> snd (bg_picker_of st) \<noteq> PickerClosed"
  by (simp_all add: qr_picker_of_def bg_picker_of_def)

lemma step_pickers_wf_aux:
  assumes wf: "pickers_wf p st" and en: "enabled p st e"
  shows "pickers_wf p (fst (step p e st))"
proof (cases "qr_picker_event e \<or> bg_picker_event e")
  case False
  then have "showQRColorPicker (fst (step p e st)) = showQRColorPicker st"
    and "showBGColorPicker (fst (step p e st)) = showBGColorPicker st"
    using step_qr_picker_frame step_bg_picker_frame picker_shown_iff by metis+
  with wf show ?thesis by (simp add: pickers_wf_def)
next
  case True
  from True wf en show ?thesis
    by (cases "showQRColorPicker st"; cases "showBGColorPicker st"; cases "allowCustomization p";
        cases e) (simp_all add: picker_step_defs)
qed

lemma reachable_pickers_wf: "reachable p st \<Longrightarrow> pickers_wf p st"
proof (induction rule: reachable.induct)
  case mount
  show ?case by (simp add: pickers_wf_def mount_def)
next
  case (step st e)
  from step.IH step.hyps(2) show ?case by (rule step_pickers_wf_aux)
qed

lemma step_picker_sim:
  assumes wf: "pickers_wf p st" and en: "enabled p st e"
  shows "(qr_picker_of (fst (step p e st)) = qr_picker_of st \<or>
          picker_spec_step (qr_picker_of st) (qr_picker_of (fst (step p e st)))) \<and>
         (bg_picker_of (fst (step p e st)) = bg_picker_of st \<or>
          picker_spec_step (bg_picker_of st) (bg_picker_of (fst (step p e st)))) \<and>
         (qr_picker_of (fst (step p e st)) = qr_picker_of st \<or>
          bg_picker_of (fst (step p e st)) = bg_picker_of st)"
proof (cases "qr_picker_event e \<or> bg_picker_event e")
  case False
  then show ?thesis by (simp add: step_qr_picker_frame step_bg_picker_frame)
next
  case True
  from True wf en show ?thesis
    by (cases "showQRColorPicker st"; cases "showBGColorPicker st"; cases "allowCustomization p";
        cases e) (simp_all add: picker_step_defs picker_spec_step.intros)
qed

subsection \<open>Properties\<close>

text \<open>
  C24: the screen's well-formedness: at mount no picker is shown, and every
  enabled event keeps at most one colour picker shown and none shown without
  \<open>allowCustomization\<close> (the two pickers exclude each other by construction).
\<close>

theorem pickers_wf_preserved:
  "pickers_wf p (mount p) \<and>
   (pickers_wf p st \<longrightarrow> enabled p st e \<longrightarrow> pickers_wf p (fst (step p e st)))"
proof -
  have "pickers_wf p (mount p)" by (simp add: pickers_wf_def mount_def)
  with step_pickers_wf_aux show ?thesis by blast
qed

theorem pickers_wf_preserved_witness:
  "pickers_wf app_qr_props (openModal (mount app_qr_props)) \<and>
   enabled app_qr_props (openModal (mount app_qr_props)) PressQRColorCircle \<and>
   pickers_wf app_qr_props (fst (step app_qr_props PressQRColorCircle (openModal (mount app_qr_props)))) \<and>
   showQRColorPicker (fst (step app_qr_props PressQRColorCircle (openModal (mount app_qr_props))))"
proof -
  have w: "pickers_wf app_qr_props (openModal (mount app_qr_props))"
    by (simp add: screen_eval pickers_wf_def)
  have e: "enabled app_qr_props (openModal (mount app_qr_props)) PressQRColorCircle"
    by (simp add: screen_eval)
  have s: "showQRColorPicker (fst (step app_qr_props PressQRColorCircle (openModal (mount app_qr_props))))"
    by (simp add: screen_eval)
  from w e s pickers_wf_preserved [of app_qr_props "openModal (mount app_qr_props)" PressQRColorCircle]
  show ?thesis by blast
qed

text \<open>
  C25: the screen refines the specification's colour-selection machines: from a
  reachable state every enabled event leaves each colour's abstract state (the
  committed colour, and the scratch colour while its picker is open) unchanged or
  makes one step of that colour's machine (open, move, confirm, cancel, or an edit
  of the text field while closed), and never moves both machines at once.
\<close>

theorem picker_refines_spec:
  assumes "reachable p st" and "enabled p st e"
  shows "(qr_picker_of (fst (step p e st)) = qr_picker_of st \<or>
          picker_spec_step (qr_picker_of st) (qr_picker_of (fst (step p e st)))) \<and>
         (bg_picker_of (fst (step p e st)) = bg_picker_of st \<or>
          picker_spec_step (bg_picker_of st) (bg_picker_of (fst (step p e st)))) \<and>
         (qr_picker_of (fst (step p e st)) = qr_picker_of st \<or>
          bg_picker_of (fst (step p e st)) = bg_picker_of st)"
  using step_picker_sim [OF reachable_pickers_wf [OF assms(1)] assms(2)] .

theorem picker_refines_spec_witness:
  "reachable app_qr_props (openModal (mount app_qr_props)) \<and>
   enabled app_qr_props (openModal (mount app_qr_props)) PressQRColorCircle \<and>
   picker_spec_step (qr_picker_of (openModal (mount app_qr_props)))
     (qr_picker_of (fst (step app_qr_props PressQRColorCircle (openModal (mount app_qr_props)))))"
proof -
  have r: "reachable app_qr_props (openModal (mount app_qr_props))"
    using reachable.step [OF reachable.mount, of app_qr_props PressMainButton]
    by (simp add: screen_eval)
  have e: "enabled app_qr_props (openModal (mount app_qr_props)) PressQRColorCircle"
    by (simp add: screen_eval)
  have ne: "qr_picker_of (fst (step app_qr_props PressQRColorCircle (openModal (mount app_qr_props)))) \<noteq>
            qr_picker_of (openModal (mount app_qr_props))"
    by (simp add: screen_eval qr_picker_of_def)
  from r e ne picker_refines_spec [OF r e] show ?thesis by blast
qed

end
