(* ===== verification/Screen_Liveness.thy ===== *)
theory Screen_Liveness
  imports Picker_Spec
begin

text \<open>
  The screen never gets stuck: from every reachable state the user and the
  environment can bring it back to the idle screen of \<open>mount\<close> (main modal
  and pickers closed, no animation running, nothing pending, \<open>processing\<close>
  clear) by enabled events only. The run settles the pending promises (each with
  a rejection, the one reply every promise can take), cancels an open picker, and
  closes the main modal and lets its fade-out end.
\<close>

definition idle_screen :: "screen \<Rightarrow> bool" where
  "idle_screen st \<longleftrightarrow>
     \<not> modalVisible st \<and> \<not> showQRColorPicker st \<and> \<not> showBGColorPicker st \<and>
     tasks st = [] \<and> \<not> processing st \<and> fade_running (fadeAnim st) = None"

subsection \<open>Lemmas\<close>

lemmas close_defs = handler_defs modal_defs animated_timing_start_eq form_reachable_def
  picker_open_def run_anim_callback_def

lemma cancel_pickers_run:
  assumes "pickers_wf p st"
  obtains es where "enabled_run p st es"
    and "\<not> showQRColorPicker (fst (run p st es))" and "\<not> showBGColorPicker (fst (run p st es))"
    and "tasks (fst (run p st es)) = tasks st" and "processing (fst (run p st es)) = processing st"
proof -
  consider "showQRColorPicker st" "\<not> showBGColorPicker st" "allowCustomization p"
    | "showBGColorPicker st" "\<not> showQRColorPicker st" "allowCustomization p"
    | "\<not> showQRColorPicker st" "\<not> showBGColorPicker st"
    using assms by (auto simp: pickers_wf_def)
  then show ?thesis
  proof cases
    case 1
    with that [of "[QRPickerCancel]"] show ?thesis by (simp add: close_defs)
  next
    case 2
    with that [of "[BGPickerCancel]"] show ?thesis by (simp add: close_defs)
  next
    case 3
    with that [of "[]"] show ?thesis by simp
  qed
qed

lemma close_modal_run:
  assumes "\<not> showQRColorPicker st" and "\<not> showBGColorPicker st"
  obtains es where "enabled_run p st es"
    and "\<not> modalVisible (fst (run p st es))" and "fade_running (fadeAnim (fst (run p st es))) = None"
    and "\<not> showQRColorPicker (fst (run p st es))" and "\<not> showBGColorPicker (fst (run p st es))"
    and "tasks (fst (run p st es)) = tasks st" and "processing (fst (run p st es)) = processing st"
proof -
  consider "modalVisible st" | "\<not> modalVisible st" "fade_running (fadeAnim st) \<noteq> None"
    | "\<not> modalVisible st" "fade_running (fadeAnim st) = None" by blast
  then show ?thesis
  proof cases
    case 1
    with assms that [of "[RequestCloseModal, FadeAnimationEnd]"] show ?thesis
      by (simp add: close_defs split: option.splits)
  next
    case 2
    then obtain cb where cb: "fade_running (fadeAnim st) = Some cb" by blast
    with 2 assms that [of "[FadeAnimationEnd]"] show ?thesis
      by (cases cb) (simp_all add: close_defs)
  next
    case 3
    with assms that [of "[]"] show ?thesis by simp
  qed
qed

subsection \<open>Properties\<close>

text \<open>
  C31: from every reachable state some run of enabled events (rejections of the
  pending promises, a picker's cancel, the main modal's close and the end of its
  fade-out) reaches the idle screen: modal and pickers closed, no animation
  running, nothing pending and \<open>processing\<close> clear.
\<close>

theorem screen_can_return_to_idle:
  assumes "reachable p st"
  shows "\<exists>es. enabled_run p st es \<and> idle_screen (fst (run p st es))"
proof -
  let ?d = "replicate (length (tasks st)) (Resume 0 Rejected)"
  define st1 where "st1 = fst (run p st ?d)"
  have en1: "enabled_run p st ?d" and t1: "tasks st1 = []"
    using drain_tasks [of p st] by (simp_all add: st1_def)
  have r1: "reachable p st1" using reachable_run [OF assms en1] by (simp add: st1_def)
  have p1: "\<not> processing st1"
    using reachable_export_inv [OF r1] t1 by (simp add: export_inv_def export_count_def)
  obtain es2 where en2: "enabled_run p st1 es2"
    and q2: "\<not> showQRColorPicker (fst (run p st1 es2))" and b2: "\<not> showBGColorPicker (fst (run p st1 es2))"
    and t2: "tasks (fst (run p st1 es2)) = tasks st1"
    and p2: "processing (fst (run p st1 es2)) = processing st1"
    using cancel_pickers_run [OF reachable_pickers_wf [OF r1]] by blast
  define st2 where "st2 = fst (run p st1 es2)"
  obtain es3 where en3: "enabled_run p st2 es3"
    and idle: "\<not> modalVisible (fst (run p st2 es3))" "fade_running (fadeAnim (fst (run p st2 es3))) = None"
      "\<not> showQRColorPicker (fst (run p st2 es3))" "\<not> showBGColorPicker (fst (run p st2 es3))"
      "tasks (fst (run p st2 es3)) = tasks st2" "processing (fst (run p st2 es3)) = processing st2"
    using close_modal_run [OF q2 b2] unfolding st2_def by blast
  have "enabled_run p st (?d @ es2 @ es3)"
    using en1 en2 en3 by (simp add: enabled_run_append run_append_fst st1_def st2_def)
  moreover have "fst (run p st (?d @ es2 @ es3)) = fst (run p st2 es3)"
    by (simp add: run_append_fst st1_def st2_def)
  ultimately show ?thesis
    using idle t1 t2 p1 p2 unfolding idle_screen_def st2_def by metis
qed

theorem screen_can_return_to_idle_witness:
  "reachable app_qr_props (openModal (mount app_qr_props)) \<and>
   (\<exists>es. enabled_run app_qr_props (openModal (mount app_qr_props)) es \<and>
      idle_screen (fst (run app_qr_props (openModal (mount app_qr_props)) es)))"
proof -
  have r: "reachable app_qr_props (openModal (mount app_qr_props))"
    using reachable.step [OF reachable.mount, of app_qr_props PressMainButton]
    by (simp add: screen_eval)
  from r screen_can_return_to_idle [OF r] show ?thesis by blast
qed

end
