(* ===== verification/Effect_Order.thy ===== *)
theory Effect_Order
  imports Screen
begin

text \<open>
  The order of the external calls over any run of the screen, whatever the
  interleaving of presses and settled promises: no image is written to the
  library without a permission request before it, and none is written or shared
  without a capture before it. Each is a counting argument: the calls of one kind
  made so far, plus the continuations still waiting to make the later call, never
  exceed the calls of the earlier kind. The runs need not be enabled: the
  handlers alone keep the order.
\<close>

subsection \<open>Counting calls and waiting continuations\<close>

definition cnt :: "('a \<Rightarrow> bool) \<Rightarrow> 'a list \<Rightarrow> nat" where
  "cnt P xs = length (filter P xs)"

fun save_permission_effect :: "effect \<Rightarrow> bool" where
  "save_permission_effect RequestMediaLibraryPermission = True"
| "save_permission_effect e = False"

fun save_write_effect :: "effect \<Rightarrow> bool" where
  "save_write_effect (SaveToLibrary u) = True"
| "save_write_effect e = False"

fun capture_effect :: "effect \<Rightarrow> bool" where
  "capture_effect (CaptureRef v) = True"
| "capture_effect e = False"

fun export_out_effect :: "effect \<Rightarrow> bool" where
  "export_out_effect (SaveToLibrary u) = True"
| "export_out_effect (ShareAsync u) = True"
| "export_out_effect e = False"

text \<open>The continuations of a save that have not written yet, and those awaiting a capture.\<close>

fun save_before_write :: "task \<Rightarrow> bool" where
  "save_before_write SaveAwaitPermission = True"
| "save_before_write SaveAwaitCapture = True"
| "save_before_write t = False"

fun awaiting_capture :: "task \<Rightarrow> bool" where
  "awaiting_capture SaveAwaitCapture = True"
| "awaiting_capture ShareAwaitCapture = True"
| "awaiting_capture t = False"

subsection \<open>Lemmas\<close>

lemma cnt_simps [simp]:
  "cnt P [] = 0"
  "cnt P (x # xs) = (if P x then Suc (cnt P xs) else cnt P xs)"
  "cnt P (xs @ ys) = cnt P xs + cnt P ys"
  by (simp_all add: cnt_def)

text \<open>A potential over the tasks that one step never raises by more than it pays.\<close>

lemma run_potential:
  assumes "\<And>e st. cnt Out (snd (step p e st)) + f (fst (step p e st)) \<le> cnt In (snd (step p e st)) + f st"
  shows "cnt Out (snd (run p st es)) + f (fst (run p st es)) \<le> cnt In (snd (run p st es)) + f st"
proof (induction es arbitrary: st)
  case Nil
  then show ?case by simp
next
  case (Cons e es)
  from assms [of e st] Cons.IH [of "fst (step p e st)"] show ?case by simp
qed

text \<open>The same for resuming a task, from the bound on each continuation.\<close>

lemma resume_potential:
  assumes cont: "\<And>t st t' st' effs. resume_task p t r st = (t', st', effs) \<Longrightarrow>
      cnt Out effs + (case t' of None \<Rightarrow> 0 | Some u \<Rightarrow> if P u then 1 else 0) \<le>
      cnt In effs + (if P t then 1 else 0)"
  shows "cnt Out (snd (resume p i r st)) + cnt P (tasks (fst (resume p i r st))) \<le>
         cnt In (snd (resume p i r st)) + cnt P (tasks st)"
proof (cases "i < length (tasks st)")
  case i: True
  obtain t' st' effs where eq: "resume_task p (tasks st ! i) r st = (t', st', effs)"
    by (cases "resume_task p (tasks st ! i) r st") auto
  have snd_eq: "snd (resume p i r st) = effs" using i eq by (simp add: resume_def)
  have "cnt P (tasks (fst (resume p i r st))) + (if P (tasks st ! i) then 1 else 0) =
        cnt P (tasks st) + (case t' of None \<Rightarrow> 0 | Some u \<Rightarrow> if P u then 1 else 0)"
    using resume_fst [OF i eq] count_remove_nth [OF i, of P] count_list_update [OF i, of P]
    by (cases t') (simp_all add: cnt_def)
  with cont [OF eq] snd_eq show ?thesis by simp
qed simp

lemma step_write_potential:
  "cnt save_write_effect (snd (step p e st)) + cnt save_before_write (tasks (fst (step p e st))) \<le>
   cnt save_permission_effect (snd (step p e st)) + cnt save_before_write (tasks st)"
proof (cases e)
  case (Resume i r)
  have "\<And>t st t' st' effs. resume_task p t r st = (t', st', effs) \<Longrightarrow>
      cnt save_write_effect effs + (case t' of None \<Rightarrow> 0 | Some u \<Rightarrow> if save_before_write u then 1 else 0) \<le>
      cnt save_permission_effect effs + (if save_before_write t then 1 else 0)"
    by (cases r) (auto elim!: resume_task.elims split: if_splits option.splits)
  with Resume show ?thesis by (simp add: resume_potential)
qed (simp_all add: handler_defs modal_defs animated_timing_start_eq split: option.splits)

lemma step_capture_potential:
  "cnt export_out_effect (snd (step p e st)) + cnt awaiting_capture (tasks (fst (step p e st))) \<le>
   cnt capture_effect (snd (step p e st)) + cnt awaiting_capture (tasks st)"
proof (cases e)
  case (Resume i r)
  have "\<And>t st t' st' effs. resume_task p t r st = (t', st', effs) \<Longrightarrow>
      cnt export_out_effect effs + (case t' of None \<Rightarrow> 0 | Some u \<Rightarrow> if awaiting_capture u then 1 else 0) \<le>
      cnt capture_effect effs + (if awaiting_capture t then 1 else 0)"
    by (cases r) (auto elim!: resume_task.elims split: if_splits option.splits)
  with Resume show ?thesis by (simp add: resume_potential)
qed (simp_all add: handler_defs modal_defs animated_timing_start_eq split: option.splits)

subsection \<open>Properties\<close>

text \<open>
  C32: in every run from \<open>mount\<close>, under any interleaving of events and settled
  promises, the screen has written to the media library at most as often as it has
  requested the media-library permission, and has written or shared at most as often
  as it has called \<open>captureRef\<close>; as every prefix of a run is a run, at every
  point of the run.
\<close>

theorem exports_follow_permission_and_capture:
  "cnt save_write_effect (snd (run p (mount p) es)) \<le>
     cnt save_permission_effect (snd (run p (mount p) es)) \<and>
   cnt export_out_effect (snd (run p (mount p) es)) \<le> cnt capture_effect (snd (run p (mount p) es))"
proof -
  have "tasks (mount p) = []" by (simp add: mount_def)
  with run_potential [OF step_write_potential, of p "mount p" es]
    run_potential [OF step_capture_potential, of p "mount p" es]
  show ?thesis by simp
qed

end
