(* ===== verification/Export_Errors.thy ===== *)
theory Export_Errors
  imports Screen_Invariants
begin

text \<open>
  The error paths of the export workflow against section 7 of the
  specification: every failure of an export in flight (a rejected promise at any
  await, caught by the \<open>catch\<close>, or a refused media-library permission) ends
  the export through the \<open>finally\<close>, leaves the form as it was, and returns the
  screen to an interactive idle state in which save and share are offered again
  exactly when the form is valid and reachable.
\<close>

definition export_failure :: "task \<Rightarrow> reply \<Rightarrow> bool" where
  "export_failure t r \<longleftrightarrow>
     is_export_task t \<and>
     (r = Rejected \<or> (t = SaveAwaitPermission \<and> (\<exists>s. r = PermissionStatus s \<and> s \<noteq> ''granted'')))"

subsection \<open>Lemmas\<close>

lemma export_failure_resume:
  assumes "export_failure t r"
  shows "\<exists>effs. resume_task p t r st = (None, st\<lparr>processing := False\<rparr>, effs) \<and>
           (r = Rejected \<longrightarrow> (\<exists>l. effs = [ConsoleError l])) \<and>
           (r \<noteq> Rejected \<longrightarrow> effs = [ShowAlert ''Permiso denegado'' msg_save_denied])"
  using assms by (cases t) (auto simp: export_failure_def finish_export_def)

lemma export_count_remove_single:
  assumes "export_inv st" and "i < length (tasks st)" and "is_export_task (tasks st ! i)"
  shows "length (filter is_export_task (remove_nth i (tasks st))) = 0"
proof -
  have "Suc (length (filter is_export_task (remove_nth i (tasks st)))) =
        length (filter is_export_task (tasks st))"
    using count_remove_nth [OF assms(2), of is_export_task] assms(3) by simp
  moreover have "length (filter is_export_task (tasks st)) \<le> 1"
    using assms(1) by (simp add: export_inv_def export_count_def)
  ultimately show ?thesis by linarith
qed

subsection \<open>Properties\<close>

text \<open>
  C33: from a reachable state, a failure of the export in flight (a rejection at
  any await, or a refused save permission) changes only \<open>processing\<close>, now
  clear, and the pending continuations, now without any export; it logs the error
  (a rejection) or shows the permission alert (a refusal); and afterwards save and
  share are enabled exactly when the main modal's form is reachable and valid.
\<close>

theorem export_failure_returns_to_idle:
  assumes "reachable p st" and "i < length (tasks st)" and "export_failure (tasks st ! i) r"
  shows "fst (step p (Resume i r) st) = st\<lparr>processing := False, tasks := remove_nth i (tasks st)\<rparr> \<and>
         export_count (fst (step p (Resume i r) st)) = 0 \<and>
         (r = Rejected \<longrightarrow> (\<exists>l. snd (step p (Resume i r) st) = [ConsoleError l])) \<and>
         (r \<noteq> Rejected \<longrightarrow>
            snd (step p (Resume i r) st) = [ShowAlert ''Permiso denegado'' msg_save_denied]) \<and>
         (enabled p (fst (step p (Resume i r) st)) PressSave \<longleftrightarrow>
            form_reachable p st \<and> isFormValid st) \<and>
         (enabled p (fst (step p (Resume i r) st)) PressShare \<longleftrightarrow>
            form_reachable p st \<and> isFormValid st)"
proof -
  obtain effs where eq: "resume_task p (tasks st ! i) r st = (None, st\<lparr>processing := False\<rparr>, effs)"
    and e1: "r = Rejected \<longrightarrow> (\<exists>l. effs = [ConsoleError l])"
    and e2: "r \<noteq> Rejected \<longrightarrow> effs = [ShowAlert ''Permiso denegado'' msg_save_denied]"
    using export_failure_resume [OF assms(3)] by blast
  have st': "fst (step p (Resume i r) st) = st\<lparr>processing := False, tasks := remove_nth i (tasks st)\<rparr>"
    using resume_fst [OF assms(2) eq] by simp
  have effs: "snd (step p (Resume i r) st) = effs" using assms(2) eq by (simp add: resume_def)
  have "export_count (fst (step p (Resume i r) st)) = 0"
    using st' export_count_remove_single [OF reachable_export_inv [OF assms(1)] assms(2)] assms(3)
    by (simp add: export_count_def export_failure_def)
  with e1 e2 show ?thesis
    unfolding st' effs by (simp add: actions_disabled_def form_reachable_def picker_open_def)
qed

theorem export_failure_returns_to_idle_witness:
  "reachable app_qr_props (fst (run app_qr_props (mount app_qr_props) [PressMainButton, PressSave])) \<and>
   0 < length (tasks (fst (run app_qr_props (mount app_qr_props) [PressMainButton, PressSave]))) \<and>
   export_failure (tasks (fst (run app_qr_props (mount app_qr_props) [PressMainButton, PressSave])) ! 0)
     (PermissionStatus ''denied'') \<and>
   enabled app_qr_props (fst (step app_qr_props (Resume 0 (PermissionStatus ''denied''))
     (fst (run app_qr_props (mount app_qr_props) [PressMainButton, PressSave])))) PressSave"
proof -
  let ?st = "fst (run app_qr_props (mount app_qr_props) [PressMainButton, PressSave])"
  have r: "reachable app_qr_props ?st"
    by (rule reachable_run [OF reachable.mount]) (simp add: screen_eval)
  have i: "0 < length (tasks ?st)" by (simp add: screen_eval)
  have f: "export_failure (tasks ?st ! 0) (PermissionStatus ''denied'')"
    by (simp add: screen_eval export_failure_def)
  have v: "form_reachable app_qr_props ?st \<and> isFormValid ?st" by (simp add: screen_eval)
  from r i f v export_failure_returns_to_idle [OF r i f] show ?thesis by blast
qed

end
