(* ===== verification/Spec2Isabelle.thy ===== *)
theory Spec2Isabelle
  imports Export_Spec Styles Screen_Liveness Effect_Order Export_Errors
begin

text \<open>
  \<^bold>\<open>A verification development of the QR-code generator screen.\<close>

  \<^emph>\<open>The program.\<close> \<open>src/App.js\<close> renders one component,
  \<open>AdvancedQRGenerator\<close> (\<open>src/src/components/AdvancedQRGenerator.js\<close>):
  a button that opens a modal with a QR code (drawn by a library from the content
  and two colours, optionally with a logo), a form to edit content, colours and
  logo, two colour-picker modals, and two export actions, save to the gallery and
  share. Its parts: the hex validator (\<open>validateHex\<close>), the form state
  (\<open>useState\<close> hooks, \<open>isFormValid\<close>), the colour-picker sub-flow, the
  \<open>async\<close> export and logo handlers, which call OS libraries and await them,
  and the open/close animation of the modal. They interact only through the
  component's state: every handler reads the last rendered state and writes
  hooks; the export handlers read \<open>isFormValid\<close> and the rendered QR view.

  \<^emph>\<open>The theories, in import order.\<close>
  \<^item> \<open>QR_Prelude\<close>: JavaScript strings (UTF-16 code units, here all Latin-1,
    as \<open>char\<close>s) and truthiness; \<open>remove_nth\<close> on the list of suspended
    handlers and the counting lemmas on it; the collections \<open>handler_defs\<close>
    and \<open>continuation_defs\<close>.
  \<^item> \<open>Hex_Validator\<close> (lines 57--59): the literal \<open>/^#([0-9A-Fa-f]{6})$/\<close>
    as a term \<open>hexRegex\<close> of a regular-expression syntax, and
    \<open>RegExp.prototype.test\<close> as the ECMAScript backtracking matcher
    (\<open>matcher\<close>, continuation-passing, terminating by the measure
    \<open>rx_weight\<close>; \<open>regex_test\<close> tries every start index). Lemmas: a
    quantified class consumes exactly \<open>n\<close> code units, \<open>^\<close> pins the
    start, and \<open>validateHex_correct\<close> refines the matcher to the specification
    \<open>is_hex_color\<close>.
  \<^item> \<open>Screen_State\<close>: the props (\<open>qr_props\<close>) destructured from the JSX
    attribute object by \<open>destructure_props\<close> with JavaScript's rule that a
    default applies only to \<open>undefined\<close> (lines 25--36); \<open>app_props\<close>, the
    attributes of \<open>App.js\<close> (lines 12--18); the state record \<open>screen\<close>
    (every hook of lines 41--55 and 169--170, \<open>fadeAnim\<close>, and \<open>tasks\<close>,
    the handlers suspended at an \<open>await\<close>); \<open>mount\<close>; \<open>isFormValid\<close>;
    \<open>qr_render\<close>, the props of the \<open>QRCode\<close> element; the button label and
    the disabled state of the action buttons.
  \<^item> \<open>Modal_Animation\<close> (lines 68--82): \<open>openModal\<close> and \<open>closeModal\<close>
    over a model of \<open>Animated.timing(...).start(cb)\<close>: starting an animation
    stops the running one, and a stopped animation still calls its callback.
  \<^item> \<open>Color_Inputs\<close> (lines 144--166, 224--279, 335, 373): the content,
    colour and blur handlers, the logo switch, and the pickers' open, change,
    cancel and confirm.
  \<^item> \<open>Export_Actions\<close> (lines 84--142): \<open>handlePickLogo\<close>,
    \<open>handleShare\<close> and \<open>handleSave\<close>, each split at its awaits into the
    synchronous part (run at the press, leaving a \<open>task\<close>) and one
    continuation per await (\<open>save_after_permission\<close>, ...), taking the
    \<open>reply\<close> the promise settles with; \<open>try/catch/finally\<close> are the
    branches on \<open>Rejected\<close> and \<open>finish_export\<close>. External calls are
    \<open>effect\<close>s, returned in order.
  \<^item> \<open>Screen\<close>: the \<open>event\<close>s of the rendered tree (presses, text changes,
    animation ends, settled promises), \<open>step\<close> (the JSX wiring of events to
    handlers), \<open>enabled\<close> (which controls the rendered screen offers: modals
    cover what is below them, disabled buttons and hidden fields take no input),
    \<open>run\<close> over event lists, and \<open>reachable\<close>, the states of runs of
    enabled events from \<open>mount\<close>, an inductive predicate whose invariants are
    proved by rule induction; \<open>enabled_run\<close>, the executable test that a
    list of events is one the screen accepts in turn.
  \<^item> \<open>Screen_Invariants\<close>: the invariants of the reachable states, each from
    a one-step lemma: \<open>export_inv\<close> (one export at a time, \<open>processing\<close>
    exactly while one is in flight), the progress measure \<open>export_rank\<close>,
    \<open>fixed_form\<close> (the form without customisation), \<open>anim_consistent\<close>,
    and a run that drains the pending promises.
  \<^item> \<open>Export_Spec\<close>: the export machine of the specification (sections 4.4
    and 9: idle, requesting permission, capturing, writing or sharing) as an
    inductive step relation \<open>export_spec_step\<close>, the abstraction
    \<open>export_phase_of\<close> that reads the phase off the export continuation in
    flight, and the simulation of the screen by that machine.
  \<^item> \<open>Picker_Spec\<close>: the per-field closed/open machine of section 4.3
    (\<open>picker_spec_step\<close>), the abstractions \<open>qr_picker_of\<close> and
    \<open>bg_picker_of\<close>, the well-formedness \<open>pickers_wf\<close> (at most one picker
    shown, none without \<open>allowCustomization\<close>) and the simulation.
  \<^item> \<open>Styles\<close> (lines 397--490 and the \<open>style\<close> props; \<open>App.js\<close>):
    the stylesheet as association lists (\<open>styles\<close>, \<open>commonFlex\<close>), the
    style arrays of the controls (\<open>control_style\<close>), the
    caller's style props (\<open>caller_style\<close>), React Native's flattening
    (\<open>flatten_style\<close>, \<open>style_get\<close>: later keys win, \<open>undefined\<close>
    skipped), and the element tree of \<open>App\<close> with its stylesheet.
  \<^item> \<open>Screen_Liveness\<close>: \<open>idle_screen\<close>, and runs of enabled events
    that cancel a picker and close the main modal, from which every reachable
    state returns to the idle screen.
  \<^item> \<open>Effect_Order\<close>: the order of the external calls over arbitrary runs,
    by potentials (\<open>run_potential\<close>): counts of calls of a kind plus the
    continuations still to make them.
  \<^item> \<open>Export_Errors\<close>: \<open>export_failure\<close> (a rejection at any await of an
    export, or a refused save permission) and the error paths of section 7 of
    the specification over reachable states.
  \<^item> \<open>Spec2Isabelle\<close> (this theory): the properties that span components.

  \<^emph>\<open>What is proved.\<close> The validator's characterisation (C1); the
  export handlers' validation guard (C2), the \<open>processing\<close> invariant over
  reachable states (C3), that share captures only validated colours (C4), the
  full save pipeline (C7), its error paths (C8, C9, C20), and that every export
  ends after at most three replies (C10); the picker's commit and cancel (C5,
  C6); the rendering of content and logo (C15); the props of \<open>App.js\<close>
  (C16, C17); the fixed form without customisation (C13); the logo flow (C19);
  the animation (C18, C21). The screen refines the specification's export
  machine (C23); the pickers stay well-formed (C24) and refine the
  specification's colour-selection machines (C25); without customisation at most
  one promise is pending (C26); the props round-trip through the attribute
  object (C27); only an export's own continuation clears \<open>processing\<close>
  (C29); the caller's \<open>mainButtonStyle\<close> overrides the sheet key by key, as
  \<open>App.js\<close> uses it (C30); every reachable state can return to the idle
  screen by enabled events (C31); under any interleaving no write precedes its
  permission request and no write or share its capture (C32); every failure of
  an export returns the screen to an interactive idle state (C33). Findings are
  proved as theorems about concrete enabled runs from the mounted \<open>App.js\<close>
  screen: an interrupted fade-out hides a modal just reopened (C12), a confirmed
  colour keeps a stale error flag (C14), save can export a colour typed after its
  validation (C11), the handlers have no re-entry guard of their own (C22), and
  the modal can be closed under a pending save, which then captures the view of
  a hidden modal (C28).

  \<^emph>\<open>Modelling choices.\<close> Each event is handled against the state of the
  last render and the screen re-renders between events (React batches the
  updates of one handler; the model applies them in order). An \<open>await\<close>
  suspends the handler; the environment settles any suspended promise at any
  later time, so other events interleave with an export. \<open>captureRef\<close> is
  modelled as capturing the view rendered when it is called. No fuel or bound is
  needed: every handler is a finite state update, the matcher terminates by
  \<open>rx_weight\<close>, and runs are finite lists of events.

  \<^emph>\<open>Not modelled.\<close> Layout: how flexbox places the views from their
  styles is the platform's (the styles themselves are modelled); the module imports
  (lines 1--24 of the component, 1--5 of \<open>App.js\<close>), which only name the
  libraries; the QR symbol encoding of \<open>react-native-qrcode-svg\<close> (the model
  stops at the props passed to it); the behaviour of the OS libraries (media
  library, image picker, sharing, view capture): their calls are \<open>effect\<close>s
  and their results the environment's \<open>reply\<close>s, chosen freely, so that for
  instance a capture of a view already unmounted (C28) may still be answered with
  an image, where \<open>react-native-view-shot\<close> would reject; constraining the
  replies so would need the mount state at each call kept with its pending task,
  and the library is not in the repository. Also alert dismissal; the
  react-native-paper theme (\<open>useTheme\<close> at line 38 is called but its value
  never read) and the gesture handler; props that change after mount (the
  \<open>useState\<close> initialisers are read only at mount, and each run of the model
  fixes the props); user text with code units above 255 (none is a hex digit).
\<close>

subsection \<open>Export safety across components\<close>

text \<open>
  C4: every capture that share makes renders colours that pass the validator:
  share captures only after its validation check, before any await, so the
  image shows the colours it validated.
\<close>

theorem share_captures_validated_colors:
  assumes "CaptureRef v \<in> set (snd (step p PressShare st))"
  shows "validateHex (qv_color v) \<and> validateHex (qv_backgroundColor v)"
  using assms by (auto simp: handleShare_def isFormValid_def qr_render_def split: if_splits)

theorem share_captures_validated_colors_witness:
  "CaptureRef (qr_render app_qr_props (mount app_qr_props))
     \<in> set (snd (step app_qr_props PressShare (mount app_qr_props))) \<and>
   validateHex (qv_color (qr_render app_qr_props (mount app_qr_props)))"
proof -
  have c: "CaptureRef (qr_render app_qr_props (mount app_qr_props))
     \<in> set (snd (step app_qr_props PressShare (mount app_qr_props)))"
    by (simp add: screen_eval)
  with share_captures_validated_colors [OF c] show ?thesis by simp
qed

text \<open>
  C11: save validates the colours when pressed but captures the view only after
  the permission request returns, and the colour fields stay editable while it
  waits: a reachable run presses save with valid colours, types an invalid QR
  colour while the permission request is pending, and save then captures and
  goes on to write a QR code in the invalid colour.
\<close>

theorem save_captures_colour_edited_after_validation:
  "enabled_run app_qr_props (mount app_qr_props)
     [PressMainButton, PressSave, QRColorChangeText ''zz'', Resume 0 (PermissionStatus ''granted'')] \<and>
   (\<exists>v. CaptureRef v \<in> set (snd (run app_qr_props (mount app_qr_props)
          [PressMainButton, PressSave, QRColorChangeText ''zz'', Resume 0 (PermissionStatus ''granted'')])) \<and>
        qv_color v = ''zz'' \<and> \<not> validateHex (qv_color v))"
  by (simp add: screen_eval)

subsection \<open>The modal and the form across components\<close>

text \<open>
  C12: closing the modal twice quickly and reopening it before the fade-out
  ends leaves the modal hidden: the second close stops the first fade-out,
  whose callback hides the modal; the reopen then stops the second fade-out,
  whose callback hides it again right after \<open>setModalVisible(true)\<close>. When
  the fade-in completes the overlay is fully opaque but not shown.
\<close>

theorem reopen_during_fade_out_hides_modal:
  "enabled_run app_qr_props (mount app_qr_props)
     [PressMainButton, FadeAnimationEnd, RequestCloseModal, RequestCloseModal,
      PressMainButton, FadeAnimationEnd] \<and>
   \<not> modalVisible (fst (run app_qr_props (mount app_qr_props)
     [PressMainButton, FadeAnimationEnd, RequestCloseModal, RequestCloseModal,
      PressMainButton, FadeAnimationEnd])) \<and>
   fadeAnim (fst (run app_qr_props (mount app_qr_props)
     [PressMainButton, FadeAnimationEnd, RequestCloseModal, RequestCloseModal,
      PressMainButton, FadeAnimationEnd])) = \<lparr>fade_toValue = 1, fade_running = None\<rparr>"
  by (simp add: screen_eval)

text \<open>
  C14: the error flag of a colour field can contradict the validator: after an
  invalid colour is typed and a valid one is then confirmed in the picker, the
  field is still flagged as an error although the colour is valid (and the
  form valid), because \<open>confirmQRColor\<close> does not recompute the flag.
\<close>

theorem stale_error_flag_after_confirm:
  "enabled_run app_qr_props (mount app_qr_props)
     [PressMainButton, QRColorChangeText ''zz'', PressQRColorCircle,
      QRPickerChange ''#123456'', QRPickerConfirm] \<and>
   qrColorError (fst (run app_qr_props (mount app_qr_props)
     [PressMainButton, QRColorChangeText ''zz'', PressQRColorCircle,
      QRPickerChange ''#123456'', QRPickerConfirm])) \<and>
   isFormValid (fst (run app_qr_props (mount app_qr_props)
     [PressMainButton, QRColorChangeText ''zz'', PressQRColorCircle,
      QRPickerChange ''#123456'', QRPickerConfirm]))"
  by (simp add: screen_eval)

text \<open>
  C22: the handlers do not guard against re-entry; only the disabled buttons
  do. A second save pressed while one is in flight is refused by the screen,
  and if the handler ran anyway, the first export's \<open>finally\<close> would clear
  \<open>processing\<close> while the second is still pending.
\<close>

theorem double_save_clears_processing_early:
  "\<not> enabled_run app_qr_props (mount app_qr_props) [PressMainButton, PressSave, PressSave] \<and>
   \<not> processing (fst (run app_qr_props (mount app_qr_props)
     [PressMainButton, PressSave, PressSave, Resume 0 (PermissionStatus ''denied'')])) \<and>
   export_count (fst (run app_qr_props (mount app_qr_props)
     [PressMainButton, PressSave, PressSave, Resume 0 (PermissionStatus ''denied'')])) = 1"
  by (simp add: screen_eval export_count_def)

text \<open>
  C28: an export can be cut off by closing the modal: the close icon stays
  enabled while \<open>processing\<close> is set, so a reachable run presses save,
  closes the modal and lets the fade-out hide it (the \<open>Modal\<close>'s children,
  the QR view among them, unmount) while the permission request is pending;
  the granted permission then calls \<open>captureRef\<close> on the view of a hidden
  modal, with \<open>processing\<close> still set.
\<close>

theorem save_captures_after_modal_closed:
  "enabled_run app_qr_props (mount app_qr_props)
     [PressMainButton, FadeAnimationEnd, PressSave, RequestCloseModal, FadeAnimationEnd,
      Resume 0 (PermissionStatus ''granted'')] \<and>
   processing (fst (run app_qr_props (mount app_qr_props)
     [PressMainButton, FadeAnimationEnd, PressSave, RequestCloseModal, FadeAnimationEnd])) \<and>
   \<not> modalVisible (fst (run app_qr_props (mount app_qr_props)
     [PressMainButton, FadeAnimationEnd, PressSave, RequestCloseModal, FadeAnimationEnd])) \<and>
   snd (step app_qr_props (Resume 0 (PermissionStatus ''granted''))
     (fst (run app_qr_props (mount app_qr_props)
       [PressMainButton, FadeAnimationEnd, PressSave, RequestCloseModal, FadeAnimationEnd]))) =
   [CaptureRef (qr_render app_qr_props (mount app_qr_props))]"
  by (simp add: screen_eval)
end
